theory Spec2Isabelle
  imports Main
begin

section \<open>Python values the translation layer works with\<close>

text \<open>
  The exceptions the modelled code can raise. A method of a description returns
  \<open>py_error + 'a\<close>, with \<open>Inl\<close> for a raised exception.
\<close>

datatype py_error =
  AttributeError
  | KeyError
  | TypeError
  | IndexError
  | ZeroDivisionError
  | OverflowError
  | AssertionError
  | NotImplementedError
  | FileNotFoundError

text \<open>
  A workload document is what \<open>yaml.load\<close> returns and what the \<open>to_yaml\<close> methods build:
  nested dictionaries, lists and scalars. A dictionary is an association list in
  insertion order (a Python \<open>dict\<close> keeps it); keys are strings. The translation reads
  no scalar of a template, so a float there stands as any other scalar.
\<close>

datatype yaml =
  YNone
  | YBool bool
  | YInt int
  | YStr string
  | YList "yaml list"
  | YDict "(string \<times> yaml) list"

text \<open>Sequencing of computations that may raise.\<close>

definition bindE :: "py_error + 'a \<Rightarrow> ('a \<Rightarrow> py_error + 'b) \<Rightarrow> py_error + 'b" where
  "bindE r f = (case r of Inl e \<Rightarrow> Inl e | Inr x \<Rightarrow> f x)"

subsection \<open>\<open>int(a / b)\<close> on Python integers\<close>

text \<open>
  \<open>a / b\<close> on two Python integers is true division: it raises \<open>ZeroDivisionError\<close> for
  \<open>b = 0\<close>, and otherwise returns the binary64 float nearest to the exact quotient
  (ties to even, subnormals below \<open>2^-1022\<close>), or raises \<open>OverflowError\<close> when that
  is not finite. \<open>int\<close> of a float truncates towards zero, exactly.

  \<open>bit_length\<close> is Python's \<open>int.bit_length\<close> on a positive integer; for positive
  \<open>A\<close> and \<open>B\<close>, \<open>float_exponent A B\<close> is the exponent \<open>e\<close> with \<open>2^e \<le> A/B < 2^(e+1)\<close>;
  \<open>round_half_even num den\<close> is the integer nearest to \<open>num/den\<close>, the even one of two
  equally near. The significand of the quotient is \<open>A/B\<close> scaled by \<open>2^-k\<close> and rounded to
  an integer of at most 53 bits, where \<open>k = max e (-1022) - 52\<close>.
\<close>

function bit_length :: "int \<Rightarrow> nat" where
  "bit_length n = (if n \<le> 0 then 0 else Suc (bit_length (n div 2)))"
  by pat_completeness auto
termination
  by (relation "measure nat") auto

definition round_half_even :: "int \<Rightarrow> int \<Rightarrow> int" where
  "round_half_even num den =
     (let q = num div den; r = num mod den
      in if 2 * r < den then q
         else if den < 2 * r then q + 1
         else if even q then q else q + 1)"

definition float_exponent :: "int \<Rightarrow> int \<Rightarrow> int" where
  "float_exponent A B =
     (let d = int (bit_length A) - int (bit_length B)
      in if (if 0 \<le> d then B * 2 ^ nat d \<le> A else B \<le> A * 2 ^ nat (- d)) then d else d - 1)"

definition float_significand :: "int \<Rightarrow> int \<Rightarrow> int \<Rightarrow> int" where
  "float_significand A B k =
     (if 0 \<le> k then round_half_even A (B * 2 ^ nat k)
      else round_half_even (A * 2 ^ nat (- k)) B)"

definition int_truediv :: "int \<Rightarrow> int \<Rightarrow> py_error + int" where
  "int_truediv a b =
     (if b = 0 then Inl ZeroDivisionError
      else if a = 0 then Inr 0
      else
        let A = \<bar>a\<bar>; B = \<bar>b\<bar>;
            k = max (float_exponent A B) (- 1022) - 52;
            n = float_significand A B k
        in if 0 \<le> k \<and> 2 ^ 1024 \<le> n * 2 ^ nat k then Inl OverflowError
           else Inr (sgn a * sgn b *
                     (if 0 \<le> k then n * 2 ^ nat k else n div 2 ^ nat (- k))))"

text \<open>\<open>a // b\<close> on Python integers: floor division, \<open>ZeroDivisionError\<close> for \<open>b = 0\<close>.\<close>

definition floordiv :: "int \<Rightarrow> int \<Rightarrow> py_error + int" where
  "floordiv a b = (if b = 0 then Inl ZeroDivisionError else Inr (a div b))"

subsection \<open>Sequences, strings and dictionaries\<close>

text \<open>\<open>xs[i]\<close>: a negative index counts from the end; out of range raises \<open>IndexError\<close>.\<close>

definition index :: "'a list \<Rightarrow> int \<Rightarrow> py_error + 'a" where
  "index xs i =
     (let len = int (length xs); j = (if i < 0 then len + i else i)
      in if 0 \<le> j \<and> j < len then Inr (xs ! nat j) else Inl IndexError)"

text \<open>\<open>xs[:-2]\<close>: all but the last two elements (empty when there are at most two).\<close>

definition upto_minus2 :: "'a list \<Rightarrow> 'a list" where
  "upto_minus2 xs = take (length xs - 2) xs"

text \<open>
  \<open>product = lambda l: reduce(lambda x, y: x*y, l)\<close>: \<open>reduce\<close> has no initial value, so it
  raises \<open>TypeError\<close> on an empty sequence.
\<close>

definition product :: "int list \<Rightarrow> py_error + int" where
  "product l = (case l of [] \<Rightarrow> Inl TypeError | x # xs \<Rightarrow> Inr (foldl (\<lambda>x y. x * y) x xs))"

text \<open>\<open>str(i)\<close> of an integer, as an f-string formats it.\<close>

function digits :: "int \<Rightarrow> string" where
  "digits i = (if i < 10 then [''0123456789'' ! nat i]
               else digits (i div 10) @ [''0123456789'' ! nat (i mod 10)])"
  by pat_completeness auto
termination
  by (relation "measure nat") auto

definition str :: "int \<Rightarrow> string" where
  "str i = (if i < 0 then CHR ''-'' # digits (- i) else digits i)"

text \<open>\<open>sep.join(xs)\<close>\<close>

fun join :: "string \<Rightarrow> string list \<Rightarrow> string" where
  "join sep [] = []"
| "join sep [x] = x"
| "join sep (x # y # ys) = x @ sep @ join sep (y # ys)"

text \<open>\<open>list(string.ascii_uppercase[:k])\<close>: the first \<open>k\<close> capital letters, at most 26.\<close>

definition ascii_uppercase :: string where
  "ascii_uppercase = ''ABCDEFGHIJKLMNOPQRSTUVWXYZ''"

definition uppercase_dims :: "nat \<Rightarrow> string list" where
  "uppercase_dims k = map (\<lambda>ch. [ch]) (take k ascii_uppercase)"

text \<open>\<open>dct[key] = v\<close> on a dictionary: replaces the value of a key it has, appends a new key.\<close>

fun dict_set :: "(string \<times> yaml) list \<Rightarrow> string \<Rightarrow> yaml \<Rightarrow> (string \<times> yaml) list" where
  "dict_set [] key v = [(key, v)]"
| "dict_set ((key', v') # kvs) key v =
     (if key' = key then (key, v) # kvs else (key', v') # dict_set kvs key v)"

text \<open>\<open>for dim, size in zip(dims, shape): bounds[dim] = size\<close>, from the bounds so far.\<close>

definition set_bounds :: "(string \<times> yaml) list \<Rightarrow> string list \<Rightarrow> int list \<Rightarrow> (string \<times> yaml) list" where
  "set_bounds bounds dims shape =
     foldl (\<lambda>b (dim_name, dim_size). dict_set b dim_name (YInt dim_size)) bounds (zip dims shape)"

text \<open>
  \<open>obj[key]\<close> and \<open>obj[key] = v\<close> with a string key, on a value of a document: only a
  dictionary takes a string key (\<open>TypeError\<close> on a list, a string or a scalar), and
  reading a key it does not have raises \<open>KeyError\<close>.
\<close>

definition getitem :: "yaml \<Rightarrow> string \<Rightarrow> py_error + yaml" where
  "getitem obj key =
     (case obj of
        YDict kvs \<Rightarrow> (case map_of kvs key of None \<Rightarrow> Inl KeyError | Some v \<Rightarrow> Inr v)
      | _ \<Rightarrow> Inl TypeError)"

definition setitem :: "yaml \<Rightarrow> string \<Rightarrow> yaml \<Rightarrow> py_error + yaml" where
  "setitem obj key v =
     (case obj of
        YDict kvs \<Rightarrow> Inr (YDict (dict_set kvs key v))
      | _ \<Rightarrow> Inl TypeError)"

text \<open>
  \<open>config[k1]...[kn] = v\<close>: the dictionaries on the way are read, the last one is
  assigned to. The document is a tree (no YAML alias shares a node), so the assignment
  in place is the document rebuilt along the path.
\<close>

fun set_in :: "yaml \<Rightarrow> string list \<Rightarrow> yaml \<Rightarrow> py_error + yaml" where
  "set_in obj [] v = Inr v"
| "set_in obj [key] v = setitem obj key v"
| "set_in obj (key # keys) v =
     bindE (getitem obj key) (\<lambda>sub.
     bindE (set_in sub keys v) (\<lambda>sub'.
       setitem obj key sub'))"

fun get_in :: "yaml \<Rightarrow> string list \<Rightarrow> py_error + yaml" where
  "get_in obj [] = Inr obj"
| "get_in obj (key # keys) = bindE (getitem obj key) (\<lambda>sub. get_in sub keys)"

text \<open>A loop body run over a list, stopping at the first exception.\<close>

fun mapE :: "('a \<Rightarrow> py_error + 'b) \<Rightarrow> 'a list \<Rightarrow> py_error + 'b list" where
  "mapE f [] = Inr []"
| "mapE f (x # xs) = bindE (f x) (\<lambda>y. bindE (mapE f xs) (\<lambda>ys. Inr (y # ys)))"

text \<open>
  \<open>for dspace in obj: body\<close>, where the body assigns into \<open>dspace\<close>: a list gives its
  elements, and the list holds them as the body leaves them; a dictionary gives its
  keys and a string its characters (strings, which the body cannot index by a name);
  a scalar is not iterable.
\<close>

definition for_each :: "(yaml \<Rightarrow> py_error + yaml) \<Rightarrow> yaml \<Rightarrow> py_error + yaml" where
  "for_each body obj =
     (case obj of
        YList xs \<Rightarrow> bindE (mapE body xs) (\<lambda>ys. Inr (YList ys))
      | YDict kvs \<Rightarrow> bindE (mapE body (map (\<lambda>(key, v). YStr key) kvs)) (\<lambda>ys. Inr obj)
      | YStr cs \<Rightarrow> bindE (mapE body (map (\<lambda>ch. YStr [ch]) cs)) (\<lambda>ys. Inr obj)
      | _ \<Rightarrow> Inl TypeError)"

text \<open>\<open>xs[i] = v\<close> on a list.\<close>

definition list_setitem :: "'a list \<Rightarrow> int \<Rightarrow> 'a \<Rightarrow> py_error + 'a list" where
  "list_setitem xs i v =
     (let len = int (length xs); j = (if i < 0 then len + i else i)
      in if 0 \<le> j \<and> j < len then Inr (xs[nat j := v]) else Inl IndexError)"

section \<open>Layer descriptions\<close>

text \<open>
  Each dataclass is a record; a subclass of \<open>LayerDescription\<close> extends its record.
  Fields of different classes share names (\<open>m\<close>, \<open>w\<close>, \<open>h\<close>, ...), so they are written
  qualified by their class: \<open>ConvLayerDescription.w d\<close> is \<open>d.w\<close>.
\<close>

record LayerDescription =
  name :: string

record ConvLayerDescription = LayerDescription +
  g :: int
  m :: int
  w :: int
  h :: int
  c :: int
  n :: int
  s :: int
  r :: int
  w_pad :: int
  h_pad :: int
  w_stride :: int
  h_stride :: int
  ifmap_name :: string
  filter_name :: string
  ofmap_name :: string

record ConvTransposeLayerDescription = LayerDescription +
  g :: int
  m :: int
  w :: int
  h :: int
  c :: int
  n :: int
  s :: int
  r :: int
  w_pad :: int
  h_pad :: int
  w_stride :: int
  h_stride :: int
  ifmap_name :: string
  filter_name :: string
  ofmap_name :: string

record MaxPoolLayerDescription = LayerDescription +
  w :: int
  h :: int
  c :: int
  n :: int
  s :: int
  r :: int
  w_pad :: int
  h_pad :: int
  w_stride :: int
  h_stride :: int
  ifmap_name :: string
  ofmap_name :: string

text \<open>
  \<open>MatrixMatrixMultiplyLayerDescription\<close> declares its name again, as \<open>Optional[str]\<close>:
  its record stands alone, with a name that may be \<open>None\<close>.
\<close>

record MatrixMatrixMultiplyLayerDescription =
  name :: "string option"
  m :: int
  n :: int
  k :: int
  batch_size :: int

record BinaryElementwiseFuncDescription = LayerDescription +
  ifmap1_shape :: "int list"
  ifmap2_shape :: "int list"
  ofmap_shape :: "int list"
  ifmap1_name :: string
  ifmap2_name :: string
  ofmap_name :: string

record MatmulFuncDescription = LayerDescription +
  m :: int
  n :: int
  k :: int
  ifmap1_name :: string
  ifmap2_name :: string
  ofmap_name :: string
  extra_dims :: "int list option"

record SoftmaxFuncDescription = LayerDescription +
  ifmap_shape :: "int list"
  ofmap_shape :: "int list"
  ifmap_name :: string
  ofmap_name :: string
  softmax_dim :: int

record ViewFuncDescription = LayerDescription +
  ifmap_shape :: "int list"
  ofmap_shape :: "int list"
  ifmap_name :: string
  ofmap_name :: string

subsection \<open>ConvLayerDescription\<close>

definition conv_q :: "ConvLayerDescription \<Rightarrow> py_error + int" where
  "conv_q d =
     bindE (int_truediv (ConvLayerDescription.w d - ConvLayerDescription.s d
                           + 2 * ConvLayerDescription.w_pad d)
                        (ConvLayerDescription.w_stride d))
       (\<lambda>t. Inr (t + 1))"

definition conv_p :: "ConvLayerDescription \<Rightarrow> py_error + int" where
  "conv_p d =
     bindE (int_truediv (ConvLayerDescription.h d - ConvLayerDescription.r d
                           + 2 * ConvLayerDescription.h_pad d)
                        (ConvLayerDescription.h_stride d))
       (\<lambda>t. Inr (t + 1))"

text \<open>\<open>[[d]]\<close> and \<open>[[d, c]]\<close>: one term of a projection.\<close>

definition proj1 :: "string \<Rightarrow> yaml" where
  "proj1 d = YList [YStr d]"

definition proj2 :: "string \<Rightarrow> string \<Rightarrow> yaml" where
  "proj2 d co = YList [YStr d, YStr co]"

definition coefficient :: "string \<Rightarrow> int \<Rightarrow> yaml" where
  "coefficient nm v = YDict [(''name'', YStr nm), (''default'', YInt v)]"

text \<open>\<open>list('GCMRSNPQ')\<close>\<close>

definition conv_dims :: "string list" where
  "conv_dims = map (\<lambda>ch. [ch]) ''GCMRSNPQ''"

text \<open>
  The \<open>shape\<close> region of a convolution, with the \<open>Inputs\<close> and \<open>Outputs\<close> projections
  as parameters (the transposed convolution swaps them).
\<close>

definition conv_shape :: "string \<Rightarrow> int \<Rightarrow> int \<Rightarrow> int \<Rightarrow> int \<Rightarrow> yaml \<Rightarrow> yaml \<Rightarrow> yaml" where
  "conv_shape nm in_channels_per_group out_channels_per_group hstride wstride inputs outputs =
     YDict [
       (''name'', YStr nm),
       (''dimensions'', YList (map YStr conv_dims)),
       (''coefficients'', YList [
          coefficient ''Cgroup'' in_channels_per_group,
          coefficient ''Mgroup'' out_channels_per_group,
          coefficient ''Hstride'' hstride,
          coefficient ''Wstride'' wstride,
          coefficient ''Nop'' 1]),
       (''data-spaces'', YList [
          YDict [(''name'', YStr ''Weights''),
                 (''projection'', YList [
                    YList [proj1 ''G''], YList [proj1 ''C''], YList [proj1 ''M''],
                    YList [proj1 ''R''], YList [proj1 ''S'']])],
          YDict [(''name'', YStr ''Inputs''), (''projection'', inputs)],
          YDict [(''name'', YStr ''Outputs''), (''projection'', outputs),
                 (''read-write'', YBool True)]])]"

text \<open>The projection that addresses with stride and kernel offset, and the direct one.\<close>

definition strided_projection :: "string \<Rightarrow> string \<Rightarrow> yaml" where
  "strided_projection ch chgroup =
     YList [
       YList [proj1 ''N''],
       YList [proj2 ''G'' chgroup, proj2 ch ''Nop''],
       YList [proj2 ''R'' ''Nop'', proj2 ''P'' ''Hstride''],
       YList [proj2 ''S'' ''Nop'', proj2 ''Q'' ''Wstride'']]"

definition direct_projection :: "string \<Rightarrow> string \<Rightarrow> yaml" where
  "direct_projection ch chgroup =
     YList [
       YList [proj1 ''N''],
       YList [proj2 ''G'' chgroup, proj2 ch ''Nop''],
       YList [proj1 ''P''],
       YList [proj1 ''Q'']]"

definition conv_instance :: "int \<Rightarrow> int \<Rightarrow> int \<Rightarrow> int \<Rightarrow> int \<Rightarrow> int \<Rightarrow> int \<Rightarrow> int \<Rightarrow> yaml" where
  "conv_instance vg vc vm vn vr vs vp vq =
     YDict [(''G'', YInt vg), (''C'', YInt vc), (''M'', YInt vm), (''N'', YInt vn),
            (''R'', YInt vr), (''S'', YInt vs), (''P'', YInt vp), (''Q'', YInt vq)]"

definition conv_to_yaml :: "ConvLayerDescription \<Rightarrow> py_error + yaml" where
  "conv_to_yaml d =
     bindE (floordiv (ConvLayerDescription.c d) (ConvLayerDescription.g d)) (\<lambda>in_channels_per_group.
     bindE (floordiv (ConvLayerDescription.m d) (ConvLayerDescription.g d)) (\<lambda>out_channels_per_group.
     bindE (conv_p d) (\<lambda>p.
     bindE (conv_q d) (\<lambda>q.
       Inr (YDict [
         (''shape'', conv_shape (LayerDescription.name d) in_channels_per_group out_channels_per_group
                       (ConvLayerDescription.h_stride d) (ConvLayerDescription.w_stride d)
                       (strided_projection ''C'' ''Cgroup'') (direct_projection ''M'' ''Mgroup'')),
         (''instance'', conv_instance (ConvLayerDescription.g d) in_channels_per_group
                          out_channels_per_group (ConvLayerDescription.n d)
                          (ConvLayerDescription.r d) (ConvLayerDescription.s d) p q)])))))"

definition conv_to_fused_yaml :: "ConvLayerDescription \<Rightarrow> py_error + yaml" where
  "conv_to_fused_yaml d =
     bindE (floordiv (ConvLayerDescription.c d) (ConvLayerDescription.g d)) (\<lambda>in_channels_per_group.
     bindE (floordiv (ConvLayerDescription.m d) (ConvLayerDescription.g d)) (\<lambda>out_channels_per_group.
     bindE (conv_p d) (\<lambda>p.
     bindE (conv_q d) (\<lambda>q.
       Inr (YDict [
         (''shape'', conv_shape (LayerDescription.name d) in_channels_per_group out_channels_per_group
                       (ConvLayerDescription.h_stride d) (ConvLayerDescription.w_stride d)
                       (strided_projection ''C'' ''Cgroup'') (direct_projection ''M'' ''Mgroup'')),
         (''instance'', conv_instance (ConvLayerDescription.g d) in_channels_per_group
                          out_channels_per_group (ConvLayerDescription.n d)
                          (ConvLayerDescription.r d) (ConvLayerDescription.s d) p q)])))))"

subsection \<open>BinaryElementwiseFuncDescription\<close>

text \<open>
  A method that assigns to \<open>self\<close> returns the description as the call leaves it, also
  when it raises: the pair of the description after the call and the document or the
  exception.
\<close>

text \<open>
  \<open>if len(shape) < len(self.ofmap_shape): shape = tuple([1]*n_missing_dims + list(shape))\<close>
\<close>

definition pad_shape :: "int list \<Rightarrow> int list \<Rightarrow> int list" where
  "pad_shape shape ofmap =
     (if length shape < length ofmap
      then replicate (length ofmap - length shape) 1 @ shape
      else shape)"

text \<open>\<open>[[[d]] for d in dims]\<close>\<close>

definition identity_projection :: "string list \<Rightarrow> yaml" where
  "identity_projection dims = YList (map (\<lambda>d. YList [proj1 d]) dims)"

definition elementwise_config :: "string \<Rightarrow> string list \<Rightarrow> (string \<times> yaml) list \<Rightarrow> yaml" where
  "elementwise_config nm dims bounds =
     YDict [
       (''shape'', YDict [
          (''name'', YStr nm),
          (''dimensions'', YList (map YStr dims)),
          (''data-spaces'', YList [
             YDict [(''name'', YStr ''Weights''), (''projection'', identity_projection dims)],
             YDict [(''name'', YStr ''Inputs''), (''projection'', identity_projection dims)],
             YDict [(''name'', YStr ''Outputs''), (''projection'', identity_projection dims),
                    (''read-write'', YBool True)]])]),
       (''instance'', YDict bounds)]"

definition binary_pad :: "BinaryElementwiseFuncDescription \<Rightarrow> BinaryElementwiseFuncDescription" where
  "binary_pad d =
     (let d1 = d\<lparr>ifmap1_shape := pad_shape (ifmap1_shape d) (BinaryElementwiseFuncDescription.ofmap_shape d)\<rparr>
      in d1\<lparr>ifmap2_shape := pad_shape (ifmap2_shape d1) (BinaryElementwiseFuncDescription.ofmap_shape d1)\<rparr>)"

definition binary_to_yaml ::
  "BinaryElementwiseFuncDescription \<Rightarrow> BinaryElementwiseFuncDescription \<times> (py_error + yaml)" where
  "binary_to_yaml d =
     (let d2 = binary_pad d;
          ofmap = BinaryElementwiseFuncDescription.ofmap_shape d2
      in if length (ifmap1_shape d2) \<noteq> length ofmap then (d2, Inl AssertionError)
         else if length (ifmap2_shape d2) \<noteq> length ofmap then (d2, Inl AssertionError)
         else case product (ifmap1_shape d2) of
           Inl e \<Rightarrow> (d2, Inl e)
         | Inr ifmap_prod \<Rightarrow>
             let d3 = (if ifmap_prod = 1
                       then d2\<lparr>LayerDescription.name := LayerDescription.name d2 @ ''_exhaustive''\<rparr>
                       else d2);
                 dims = uppercase_dims (length ofmap);
                 bounds = set_bounds [] dims (ifmap1_shape d3)
             in (d3, Inr (elementwise_config (LayerDescription.name d3) dims bounds)))"

definition binary_to_fused_yaml ::
  "BinaryElementwiseFuncDescription \<Rightarrow> BinaryElementwiseFuncDescription \<times> (py_error + yaml)" where
  "binary_to_fused_yaml d =
     (let d2 = binary_pad d;
          ofmap = BinaryElementwiseFuncDescription.ofmap_shape d2
      in if length (ifmap1_shape d2) \<noteq> length ofmap then (d2, Inl AssertionError)
         else if length (ifmap2_shape d2) \<noteq> length ofmap then (d2, Inl AssertionError)
         else
           let dims = uppercase_dims (length ofmap);
               bounds = set_bounds [] dims (ifmap1_shape d2)
           in (d2, Inr (elementwise_config (LayerDescription.name d2) dims bounds)))"

subsection \<open>ViewFuncDescription\<close>

definition view_to_yaml :: "ViewFuncDescription \<Rightarrow> py_error + yaml" where
  "view_to_yaml d = Inl NotImplementedError"

text \<open>\<open>bounds.append(f'0 <= {dim_name} < {dim_size}')\<close> over \<open>zip(ofmap_dims, self.ofmap_shape)\<close>\<close>

definition view_bounds :: "string list \<Rightarrow> int list \<Rightarrow> string list" where
  "view_bounds ofmap_dims shape =
     map (\<lambda>(dim_name, dim_size). ''0 <= '' @ dim_name @ '' < '' @ str dim_size) (zip ofmap_dims shape)"

text \<open>
  The loop over the reversed pairs, from the running size \<open>cur_size\<close>:
  \<open>terms.append(f'{dim}*{cur_size}'); cur_size *= dim_size\<close>.
\<close>

fun linear_terms :: "(string \<times> int) list \<Rightarrow> int \<Rightarrow> string list" where
  "linear_terms [] cur_size = []"
| "linear_terms ((dim, dim_size) # rest) cur_size =
     (dim @ ''*'' @ str cur_size) # linear_terms rest (cur_size * dim_size)"

definition linearized_ofmaps :: "string list \<Rightarrow> int list \<Rightarrow> string" where
  "linearized_ofmaps ofmap_dims shape = join '' + '' (linear_terms (rev (zip ofmap_dims shape)) 1)"

text \<open>
  The loop over the reversed input shape:
  \<open>ifmap_terms.append(f'floor({linearized_ofmaps}/{cur_size})%{dim_size}'); cur_size *= dim_size\<close>.
\<close>

fun ifmap_terms_loop :: "string \<Rightarrow> int list \<Rightarrow> int \<Rightarrow> string list" where
  "ifmap_terms_loop lin [] cur_size = []"
| "ifmap_terms_loop lin (dim_size # rest) cur_size =
     (''floor('' @ lin @ ''/'' @ str cur_size @ '')%'' @ str dim_size)
       # ifmap_terms_loop lin rest (cur_size * dim_size)"

text \<open>\<open>ifmap_terms\<close> after \<open>ifmap_terms.reverse()\<close>\<close>

definition view_ifmap_terms :: "string \<Rightarrow> int list \<Rightarrow> string list" where
  "view_ifmap_terms lin ifmap = rev (ifmap_terms_loop lin (rev ifmap) 1)"

definition view_to_fused_yaml :: "ViewFuncDescription \<Rightarrow> py_error + yaml" where
  "view_to_fused_yaml d =
     bindE (product (ViewFuncDescription.ifmap_shape d)) (\<lambda>ifmap_prod.
     bindE (product (ViewFuncDescription.ofmap_shape d)) (\<lambda>ofmap_prod.
       if ifmap_prod \<noteq> ofmap_prod then Inl AssertionError
       else
         let n_ofmap_dims = length (ViewFuncDescription.ofmap_shape d);
             ofmap_dims = uppercase_dims n_ofmap_dims;
             bounds = view_bounds ofmap_dims (ViewFuncDescription.ofmap_shape d);
             lin = linearized_ofmaps ofmap_dims (ViewFuncDescription.ofmap_shape d);
             ifmap_terms = view_ifmap_terms lin (ViewFuncDescription.ifmap_shape d)
         in Inr (YDict [
              (''shape'', YDict [
                 (''name'', YStr (LayerDescription.name d)),
                 (''dimensions'', YList (map YStr ofmap_dims)),
                 (''data-spaces'', YList [
                    YDict [(''name'', YStr (ViewFuncDescription.ifmap_name d)),
                           (''projection'', YStr (''[ '' @ join '', '' ifmap_terms @ '' ]''))],
                    YDict [(''name'', YStr (ViewFuncDescription.ofmap_name d)),
                           (''projection'', YStr (''[ '' @ join '', '' ofmap_dims @ '' ]'')),
                           (''read-write'', YBool True)]])]),
              (''instance'', YStr (join '' and '' bounds))])))"

subsection \<open>LayerDescription: the template of a workload\<close>

text \<open>
  \<open>get_workload\<close> reads the YAML file \<open>utils/<problem_template>.yaml\<close> of the package.
  The files are a parameter: \<open>templates t\<close> is the document of template \<open>t\<close>, if the
  package has that file. \<open>LayerDescription\<close> itself has no \<open>problem_template\<close>.
\<close>

definition get_workload :: "(string \<Rightarrow> yaml option) \<Rightarrow> string option \<Rightarrow> py_error + yaml" where
  "get_workload templates problem_template =
     (case problem_template of
        None \<Rightarrow> Inl AttributeError
      | Some t \<Rightarrow> (case templates t of None \<Rightarrow> Inl FileNotFoundError | Some doc \<Rightarrow> Inr doc))"

text \<open>\<open>LayerDescription.to_yaml\<close>, for a class with the given \<open>problem_template\<close>.\<close>

definition layer_to_yaml ::
  "(string \<Rightarrow> yaml option) \<Rightarrow> string option \<Rightarrow> yaml \<Rightarrow> py_error + yaml" where
  "layer_to_yaml templates problem_template nm =
     bindE (get_workload templates problem_template) (\<lambda>config.
       set_in config [''problem'', ''shape'', ''name''] nm)"

text \<open>No class but the convolutions, the elementwise operation and the view defines \<open>to_fused_yaml\<close>.\<close>

definition layer_to_fused_yaml :: "py_error + yaml" where
  "layer_to_fused_yaml = Inl AttributeError"

subsection \<open>ConvTransposeLayerDescription\<close>

definition conv_transpose_q :: "ConvTransposeLayerDescription \<Rightarrow> int" where
  "conv_transpose_q d =
     (ConvTransposeLayerDescription.w d - 1) * ConvTransposeLayerDescription.w_stride d
       - 2 * ConvTransposeLayerDescription.w_pad d
       + 1 * (ConvTransposeLayerDescription.s d - 1) + 0 + 1"

definition conv_transpose_p :: "ConvTransposeLayerDescription \<Rightarrow> int" where
  "conv_transpose_p d =
     (ConvTransposeLayerDescription.h d - 1) * ConvTransposeLayerDescription.h_stride d
       - 2 * ConvTransposeLayerDescription.h_pad d
       + 1 * (ConvTransposeLayerDescription.r d - 1) + 0 + 1"

definition conv_transpose_to_yaml ::
  "ConvTransposeLayerDescription \<Rightarrow> ConvTransposeLayerDescription \<times> (py_error + yaml)" where
  "conv_transpose_to_yaml d =
     (case floordiv (ConvTransposeLayerDescription.c d) (ConvTransposeLayerDescription.g d) of
        Inl e \<Rightarrow> (d, Inl e)
      | Inr in_channels_per_group \<Rightarrow>
     (case floordiv (ConvTransposeLayerDescription.m d) (ConvTransposeLayerDescription.g d) of
        Inl e \<Rightarrow> (d, Inl e)
      | Inr out_channels_per_group \<Rightarrow>
         let d' = d\<lparr>LayerDescription.name := LayerDescription.name d @ ''_transpose''\<rparr>
         in (d', Inr (YDict [
           (''shape'', conv_shape (LayerDescription.name d') in_channels_per_group
                         out_channels_per_group
                         (ConvTransposeLayerDescription.h_stride d')
                         (ConvTransposeLayerDescription.w_stride d')
                         (direct_projection ''C'' ''Cgroup'') (strided_projection ''M'' ''Mgroup'')),
           (''instance'', conv_instance (ConvTransposeLayerDescription.g d') in_channels_per_group
                            out_channels_per_group (ConvTransposeLayerDescription.n d')
                            (ConvTransposeLayerDescription.r d') (ConvTransposeLayerDescription.s d')
                            (ConvTransposeLayerDescription.h d')
                            (ConvTransposeLayerDescription.w d'))]))))"

definition conv_transpose_to_fused_yaml ::
  "ConvTransposeLayerDescription \<Rightarrow> ConvTransposeLayerDescription \<times> (py_error + yaml)" where
  "conv_transpose_to_fused_yaml d =
     (case floordiv (ConvTransposeLayerDescription.c d) (ConvTransposeLayerDescription.g d) of
        Inl e \<Rightarrow> (d, Inl e)
      | Inr in_channels_per_group \<Rightarrow>
     (case floordiv (ConvTransposeLayerDescription.m d) (ConvTransposeLayerDescription.g d) of
        Inl e \<Rightarrow> (d, Inl e)
      | Inr out_channels_per_group \<Rightarrow>
         let d' = d\<lparr>LayerDescription.name := LayerDescription.name d @ ''_transpose''\<rparr>
         in (d', Inr (YDict [
           (''shape'', conv_shape (LayerDescription.name d') in_channels_per_group
                         out_channels_per_group
                         (ConvTransposeLayerDescription.h_stride d')
                         (ConvTransposeLayerDescription.w_stride d')
                         (direct_projection ''C'' ''Cgroup'') (strided_projection ''M'' ''Mgroup'')),
           (''instance'', conv_instance (ConvTransposeLayerDescription.g d') in_channels_per_group
                            out_channels_per_group (ConvTransposeLayerDescription.n d')
                            (ConvTransposeLayerDescription.r d') (ConvTransposeLayerDescription.s d')
                            (ConvTransposeLayerDescription.h d')
                            (ConvTransposeLayerDescription.w d'))]))))"

subsection \<open>MaxPoolLayerDescription\<close>

definition pool_q :: "MaxPoolLayerDescription \<Rightarrow> py_error + int" where
  "pool_q d =
     bindE (int_truediv (MaxPoolLayerDescription.w d - MaxPoolLayerDescription.s d
                           + 2 * MaxPoolLayerDescription.w_pad d)
                        (MaxPoolLayerDescription.w_stride d))
       (\<lambda>t. Inr (t + 1))"

definition pool_p :: "MaxPoolLayerDescription \<Rightarrow> py_error + int" where
  "pool_p d =
     bindE (int_truediv (MaxPoolLayerDescription.h d - MaxPoolLayerDescription.r d
                           + 2 * MaxPoolLayerDescription.h_pad d)
                        (MaxPoolLayerDescription.h_stride d))
       (\<lambda>t. Inr (t + 1))"

text \<open>\<open>config['problem']['instance'][key] = v\<close>\<close>

definition set_instance :: "string \<Rightarrow> int \<Rightarrow> yaml \<Rightarrow> py_error + yaml" where
  "set_instance key v config = set_in config [''problem'', ''instance'', key] (YInt v)"

definition pool_to_yaml :: "(string \<Rightarrow> yaml option) \<Rightarrow> MaxPoolLayerDescription \<Rightarrow> py_error + yaml" where
  "pool_to_yaml templates d =
     bindE (layer_to_yaml templates (Some ''pool'') (YStr (LayerDescription.name d))) (\<lambda>config.
     bindE (set_instance ''R'' (MaxPoolLayerDescription.r d) config) (\<lambda>config.
     bindE (set_instance ''S'' (MaxPoolLayerDescription.s d) config) (\<lambda>config.
     bindE (pool_p d) (\<lambda>p.
     bindE (set_instance ''P'' p config) (\<lambda>config.
     bindE (pool_q d) (\<lambda>q.
     bindE (set_instance ''Q'' q config) (\<lambda>config.
     bindE (set_instance ''C'' (MaxPoolLayerDescription.c d) config) (\<lambda>config.
     bindE (set_instance ''N'' (MaxPoolLayerDescription.n d) config) (\<lambda>config.
     bindE (set_instance ''Wstride'' (MaxPoolLayerDescription.w_stride d) config) (\<lambda>config.
     set_instance ''Hstride'' (MaxPoolLayerDescription.h_stride d) config))))))))))"

text \<open>\<open>super().to_fused_yaml()\<close> is the first statement, and the base class has no such method.\<close>

definition pool_to_fused_yaml :: "(string \<Rightarrow> yaml option) \<Rightarrow> MaxPoolLayerDescription \<Rightarrow> py_error + yaml" where
  "pool_to_fused_yaml templates d = layer_to_fused_yaml"

subsection \<open>MatrixMatrixMultiplyLayerDescription\<close>

definition optional_str :: "string option \<Rightarrow> yaml" where
  "optional_str x = (case x of None \<Rightarrow> YNone | Some v \<Rightarrow> YStr v)"

definition mmm_to_yaml ::
  "(string \<Rightarrow> yaml option) \<Rightarrow> MatrixMatrixMultiplyLayerDescription \<Rightarrow> py_error + yaml" where
  "mmm_to_yaml templates d =
     bindE (layer_to_yaml templates (Some ''convolution'')
              (optional_str (MatrixMatrixMultiplyLayerDescription.name d))) (\<lambda>config.
     bindE (set_instance ''R'' 1 config) (\<lambda>config.
     bindE (set_instance ''S'' (MatrixMatrixMultiplyLayerDescription.k d) config) (\<lambda>config.
     bindE (set_instance ''P'' (MatrixMatrixMultiplyLayerDescription.m d) config) (\<lambda>config.
     bindE (set_instance ''Q'' 1 config) (\<lambda>config.
     bindE (set_instance ''C'' 1 config) (\<lambda>config.
     bindE (set_instance ''M'' (MatrixMatrixMultiplyLayerDescription.n d) config) (\<lambda>config.
     bindE (set_instance ''N'' (MatrixMatrixMultiplyLayerDescription.batch_size d) config) (\<lambda>config.
     bindE (set_instance ''Wstride'' 1 config) (\<lambda>config.
     bindE (set_instance ''Hstride'' 1 config) (\<lambda>config.
     set_in config [''problem'', ''shape'', ''name'']
       (optional_str (MatrixMatrixMultiplyLayerDescription.name d))))))))))))"

subsection \<open>MatmulFuncDescription\<close>

text \<open>The body of the loop over the data-spaces of the template.\<close>

definition matmul_dspace :: "MatmulFuncDescription \<Rightarrow> string list \<Rightarrow> yaml \<Rightarrow> py_error + yaml" where
  "matmul_dspace d dims dspace =
     bindE (getitem dspace ''name'') (\<lambda>nm.
     bindE (if nm = YStr ''Input1''
            then setitem dspace ''name'' (YStr (MatmulFuncDescription.ifmap1_name d))
            else if nm = YStr ''Input2''
            then setitem dspace ''name'' (YStr (MatmulFuncDescription.ifmap2_name d))
            else if nm = YStr ''Outputs''
            then setitem dspace ''name'' (YStr (MatmulFuncDescription.ofmap_name d))
            else Inr dspace) (\<lambda>dspace.
     bindE (getitem dspace ''projection'') (\<lambda>projection.
       case projection of
         YList ps \<Rightarrow> setitem dspace ''projection'' (YList (map (\<lambda>dim. YList [proj1 dim]) dims @ ps))
       | _ \<Rightarrow> Inl TypeError)))"

text \<open>\<open>for dim, size in zip(dims, self.extra_dims): config['problem']['instance'][dim] = size\<close>\<close>

fun set_instances :: "(string \<times> int) list \<Rightarrow> yaml \<Rightarrow> py_error + yaml" where
  "set_instances [] config = Inr config"
| "set_instances ((dim, dim_size) # rest) config =
     bindE (set_instance dim dim_size config) (\<lambda>config. set_instances rest config)"

definition matmul_to_yaml ::
  "(string \<Rightarrow> yaml option) \<Rightarrow> MatmulFuncDescription \<Rightarrow> MatmulFuncDescription \<times> (py_error + yaml)" where
  "matmul_to_yaml templates d =
     (case layer_to_yaml templates (Some ''matmul'') (YStr (LayerDescription.name d)) of
        Inl e \<Rightarrow> (d, Inl e)
      | Inr config \<Rightarrow>
          let dims = (case extra_dims d of
                        Some extra \<Rightarrow> uppercase_dims (length extra)
                      | None \<Rightarrow> []);
              d' = (case extra_dims d of
                      Some extra \<Rightarrow> d
                    | None \<Rightarrow> d\<lparr>extra_dims := Some []\<rparr>);
              extra = (case extra_dims d' of Some extra \<Rightarrow> extra | None \<Rightarrow> [])
          in (d',
              bindE (get_in config [''problem'', ''shape'', ''data-spaces'']) (\<lambda>dspaces.
              bindE (for_each (matmul_dspace d' dims) dspaces) (\<lambda>dspaces.
              bindE (set_in config [''problem'', ''shape'', ''data-spaces''] dspaces) (\<lambda>config.
              bindE (set_instance ''K'' (MatmulFuncDescription.k d') config) (\<lambda>config.
              bindE (set_instance ''M'' (MatmulFuncDescription.m d') config) (\<lambda>config.
              bindE (set_instance ''N'' (MatmulFuncDescription.n d') config) (\<lambda>config.
              bindE (set_in config [''problem'', ''shape'', ''name'']
                       (YStr (LayerDescription.name d'))) (\<lambda>config.
              set_instances (zip dims extra) config)))))))))"

subsection \<open>SoftmaxFuncDescription\<close>

definition softmax_dspace :: "SoftmaxFuncDescription \<Rightarrow> string list \<Rightarrow> yaml \<Rightarrow> py_error + yaml" where
  "softmax_dspace d dims dspace =
     bindE (getitem dspace ''name'') (\<lambda>nm.
       if nm = YStr ''Input'' then
         bindE (setitem dspace ''name'' (YStr (SoftmaxFuncDescription.ifmap_name d))) (\<lambda>dspace.
           setitem dspace ''projection'' (identity_projection (butlast dims)))
       else if nm = YStr ''Output'' then
         bindE (setitem dspace ''name'' (YStr (SoftmaxFuncDescription.ofmap_name d))) (\<lambda>dspace.
         bindE (list_setitem (map (\<lambda>dim. YList [proj1 dim]) (butlast dims)) (softmax_dim d)
                  (YList [proj1 (last dims)])) (\<lambda>projection.
           setitem dspace ''projection'' (YList projection)))
       else Inr dspace)"

definition softmax_to_yaml ::
  "(string \<Rightarrow> yaml option) \<Rightarrow> SoftmaxFuncDescription \<Rightarrow> py_error + yaml" where
  "softmax_to_yaml templates d =
     bindE (layer_to_yaml templates (Some ''softmax'') (YStr (LayerDescription.name d))) (\<lambda>config.
       let dims = uppercase_dims (length (SoftmaxFuncDescription.ifmap_shape d) + 1)
       in
     bindE (get_in config [''problem'', ''shape'', ''data-spaces'']) (\<lambda>dspaces.
     bindE (for_each (softmax_dspace d dims) dspaces) (\<lambda>dspaces.
     bindE (set_in config [''problem'', ''shape'', ''data-spaces''] dspaces) (\<lambda>config.
       let instance0 = set_bounds [] (butlast dims) (SoftmaxFuncDescription.ifmap_shape d)
       in
     bindE (index (SoftmaxFuncDescription.ofmap_shape d) (softmax_dim d)) (\<lambda>dim_size.
       set_in config [''problem'', ''instance'']
         (YDict (dict_set instance0 (last dims) (YInt dim_size))))))))"

section \<open>The translation call on any description\<close>

datatype description =
  Layer LayerDescription
  | Conv ConvLayerDescription
  | ConvTranspose ConvTransposeLayerDescription
  | MaxPool MaxPoolLayerDescription
  | MatrixMatrixMultiply MatrixMatrixMultiplyLayerDescription
  | BinaryElementwise BinaryElementwiseFuncDescription
  | Matmul MatmulFuncDescription
  | Softmax SoftmaxFuncDescription
  | View ViewFuncDescription

text \<open>
  \<open>d.to_yaml()\<close> and \<open>d.to_fused_yaml()\<close>, dispatched on the class of \<open>d\<close>: the description
  after the call, and the document or the exception.
\<close>

fun to_yaml :: "(string \<Rightarrow> yaml option) \<Rightarrow> description \<Rightarrow> description \<times> (py_error + yaml)" where
  "to_yaml templates (Layer d) = (Layer d, layer_to_yaml templates None (YStr (LayerDescription.name d)))"
| "to_yaml templates (Conv d) = (Conv d, conv_to_yaml d)"
| "to_yaml templates (ConvTranspose d) =
     (case conv_transpose_to_yaml d of (d', res) \<Rightarrow> (ConvTranspose d', res))"
| "to_yaml templates (MaxPool d) = (MaxPool d, pool_to_yaml templates d)"
| "to_yaml templates (MatrixMatrixMultiply d) = (MatrixMatrixMultiply d, mmm_to_yaml templates d)"
| "to_yaml templates (BinaryElementwise d) =
     (case binary_to_yaml d of (d', res) \<Rightarrow> (BinaryElementwise d', res))"
| "to_yaml templates (Matmul d) =
     (case matmul_to_yaml templates d of (d', res) \<Rightarrow> (Matmul d', res))"
| "to_yaml templates (Softmax d) = (Softmax d, softmax_to_yaml templates d)"
| "to_yaml templates (View d) = (View d, view_to_yaml d)"

fun to_fused_yaml :: "(string \<Rightarrow> yaml option) \<Rightarrow> description \<Rightarrow> description \<times> (py_error + yaml)" where
  "to_fused_yaml templates (Layer d) = (Layer d, layer_to_fused_yaml)"
| "to_fused_yaml templates (Conv d) = (Conv d, conv_to_fused_yaml d)"
| "to_fused_yaml templates (ConvTranspose d) =
     (case conv_transpose_to_fused_yaml d of (d', res) \<Rightarrow> (ConvTranspose d', res))"
| "to_fused_yaml templates (MaxPool d) = (MaxPool d, pool_to_fused_yaml templates d)"
| "to_fused_yaml templates (MatrixMatrixMultiply d) = (MatrixMatrixMultiply d, layer_to_fused_yaml)"
| "to_fused_yaml templates (BinaryElementwise d) =
     (case binary_to_fused_yaml d of (d', res) \<Rightarrow> (BinaryElementwise d', res))"
| "to_fused_yaml templates (Matmul d) = (Matmul d, layer_to_fused_yaml)"
| "to_fused_yaml templates (Softmax d) = (Softmax d, layer_to_fused_yaml)"
| "to_fused_yaml templates (View d) = (View d, view_to_fused_yaml d)"

section \<open>The operator classifier\<close>

text \<open>
  A tensor enters the classifier through its \<open>shape\<close> alone, a tuple of integers.
\<close>

definition generate_matmul_func ::
  "int list \<Rightarrow> int list \<Rightarrow> int list \<Rightarrow> string \<Rightarrow> string \<Rightarrow> string
     \<Rightarrow> py_error + MatmulFuncDescription" where
  "generate_matmul_func input1 input2 output nm input1_name input2_name =
     (if length input1 = 2 \<and> length input2 = 2 then
        bindE (index input1 0) (\<lambda>vm.
        bindE (index input2 1) (\<lambda>vn.
        bindE (index input1 1) (\<lambda>vk.
          Inr \<lparr>LayerDescription.name = nm,
               MatmulFuncDescription.m = vm, MatmulFuncDescription.n = vn,
               MatmulFuncDescription.k = vk,
               MatmulFuncDescription.ifmap1_name = input1_name,
               MatmulFuncDescription.ifmap2_name = input2_name,
               MatmulFuncDescription.ofmap_name = nm @ ''_out'',
               extra_dims = Some []\<rparr>)))
      else if 2 < length input1 \<and> upto_minus2 input1 = upto_minus2 input2 then
        bindE (index input1 0) (\<lambda>vm.
        bindE (index input2 1) (\<lambda>vn.
        bindE (index input1 1) (\<lambda>vk.
          Inr \<lparr>LayerDescription.name = nm,
               MatmulFuncDescription.m = vm, MatmulFuncDescription.n = vn,
               MatmulFuncDescription.k = vk,
               MatmulFuncDescription.ifmap1_name = input1_name,
               MatmulFuncDescription.ifmap2_name = input2_name,
               MatmulFuncDescription.ofmap_name = nm @ ''_out'',
               extra_dims = Some (upto_minus2 input1)\<rparr>)))
      else Inl NotImplementedError)"


section \<open>Properties\<close>

subsection \<open>Auxiliary facts\<close>

lemma bindE_Inr [simp]: "bindE (Inr x) f = f x"
  by (simp add: bindE_def)

lemma bindE_Inl [simp]: "bindE (Inl e) f = Inl e"
  by (simp add: bindE_def)





lemma length_upto_minus2: "length (upto_minus2 xs) = length xs - 2"
  by (simp add: upto_minus2_def)

subsection \<open>\<open>int(a / b)\<close> is the floor quotient below \<open>2^53\<close>\<close>

text \<open>
  For \<open>0 \<le> a < 2^53\<close> and \<open>0 < b\<close> the float \<open>a / b\<close> never rounds up to the next integer,
  so its truncation is \<open>a div b\<close>: the significand is within one half of the scaled
  quotient, and \<open>b\<close> is below twice the scale.
\<close>

declare bit_length.simps [simp del]

lemma bit_length_bounds:
  "0 < x \<Longrightarrow> 2 ^ (bit_length x - 1) \<le> x \<and> x < 2 ^ bit_length x"
proof (induction x rule: bit_length.induct)
  case (1 x)
  show ?case
  proof (cases "x = 1")
    case True
    then show ?thesis by (simp add: bit_length.simps [of 1] bit_length.simps [of 0])
  next
    case False
    with "1.prems" have half: "0 < x div 2" by linarith
    with "1.prems" "1.IH" have IH: "2 ^ (bit_length (x div 2) - 1) \<le> x div 2"
      "x div 2 < 2 ^ bit_length (x div 2)" by simp_all
    from half have pos: "0 < bit_length (x div 2)"
      by (simp add: bit_length.simps [of "x div 2"])
    from "1.prems" have bl: "bit_length x = Suc (bit_length (x div 2))"
      by (simp add: bit_length.simps [of x])
    from pos have "(2::int) ^ bit_length (x div 2) = 2 * 2 ^ (bit_length (x div 2) - 1)"
      by (cases "bit_length (x div 2)") simp_all
    with IH have "2 ^ bit_length (x div 2) \<le> x" "x < 2 * 2 ^ bit_length (x div 2)"
      by linarith+
    with bl show ?thesis by simp
  qed
qed

lemma round_half_even_cases:
  assumes "0 < den"
  obtains (down) qq rr where "num = den * qq + rr" "0 \<le> rr" "2 * rr \<le> den"
      "round_half_even num den = qq"
    | (up) qq rr where "num = den * qq + rr" "rr < den" "den \<le> 2 * rr"
      "round_half_even num den = qq + 1"
proof -
  define qq where "qq = num div den"
  define rr where "rr = num mod den"
  have eq: "num = den * qq + rr" by (simp add: qq_def rr_def)
  have rr: "0 \<le> rr" "rr < den" using assms by (simp_all add: rr_def)
  have "round_half_even num den = qq \<and> 2 * rr \<le> den
      \<or> round_half_even num den = qq + 1 \<and> den \<le> 2 * rr"
    by (auto simp: round_half_even_def Let_def qq_def [symmetric] rr_def [symmetric])
  with eq rr down up show thesis by blast
qed

lemma round_half_even_bounds:
  assumes "0 < den"
  shows "2 * num \<le> 2 * (den * round_half_even num den) + den"
    and "2 * (den * round_half_even num den) \<le> 2 * num + den"
proof -
  have "2 * num \<le> 2 * (den * round_half_even num den) + den
      \<and> 2 * (den * round_half_even num den) \<le> 2 * num + den"
  proof (rule round_half_even_cases [OF assms, of num])
    fix qq rr
    assume "num = den * qq + rr" "0 \<le> rr" "2 * rr \<le> den" "round_half_even num den = qq"
    then show ?thesis by simp
  next
    fix qq rr
    assume up: "num = den * qq + rr" "rr < den" "den \<le> 2 * rr" "round_half_even num den = qq + 1"
    have "den * (qq + 1) = den * qq + den" by (simp add: algebra_simps)
    with up show ?thesis by simp
  qed
  then show "2 * num \<le> 2 * (den * round_half_even num den) + den"
    and "2 * (den * round_half_even num den) \<le> 2 * num + den" by simp_all
qed

lemma float_exponent_nonneg:
  assumes "0 < A" "0 < B" "B \<le> A"
  shows "0 \<le> float_exponent A B"
proof -
  from bit_length_bounds [OF assms(1)] bit_length_bounds [OF assms(2)]
  have A: "A < 2 ^ bit_length A" and B: "2 ^ (bit_length B - 1) \<le> B" by simp_all
  have le: "bit_length B \<le> bit_length A"
  proof (rule ccontr)
    assume "\<not> bit_length B \<le> bit_length A"
    then have "bit_length A \<le> bit_length B - 1" by simp
    then have "(2::int) ^ bit_length A \<le> 2 ^ (bit_length B - 1)"
      by (rule power_increasing) simp
    with A B assms(3) show False by linarith
  qed
  show ?thesis
  proof (cases "bit_length A = bit_length B")
    case True
    with assms(3) show ?thesis by (simp add: float_exponent_def)
  next
    case False
    with le have "0 < int (bit_length A) - int (bit_length B)" by simp
    then show ?thesis by (simp add: float_exponent_def Let_def)
  qed
qed

lemma float_exponent_lower:
  assumes "0 < A" "0 < B" "0 \<le> float_exponent A B"
  shows "B * 2 ^ nat (float_exponent A B) \<le> A"
proof -
  from bit_length_bounds [OF assms(1)] bit_length_bounds [OF assms(2)]
  have A: "2 ^ (bit_length A - 1) \<le> A" and B: "B < 2 ^ bit_length B" by simp_all
  define dd where "dd = int (bit_length A) - int (bit_length B)"
  show ?thesis
  proof (cases "0 \<le> dd \<and> B * 2 ^ nat dd \<le> A")
    case True
    then have "float_exponent A B = dd"
      by (simp add: float_exponent_def Let_def dd_def)
    with True show ?thesis by simp
  next
    case False
    with assms(3) have ex: "float_exponent A B = dd - 1" and dd: "1 \<le> dd"
      by (auto simp: float_exponent_def Let_def dd_def [symmetric] split: if_splits)
    from dd have len: "bit_length B + nat (dd - 1) = bit_length A - 1"
      by (simp add: dd_def)
    have "B * 2 ^ nat (dd - 1) \<le> 2 ^ bit_length B * 2 ^ nat (dd - 1)"
      using B by (intro mult_right_mono) simp_all
    also have "\<dots> = 2 ^ (bit_length A - 1)"
      using len by (simp add: power_add [symmetric])
    finally show ?thesis using A ex by simp
  qed
qed


lemma div_from_bounds:
  fixes x :: int
  assumes "0 < sc" "qq * sc \<le> x" "x < (qq + 1) * sc"
  shows "x div sc = qq"
proof -
  have "x = sc * qq + (x - qq * sc)" by (simp add: algebra_simps)
  moreover have "0 \<le> x - qq * sc" using assms(2) by simp
  moreover have "x - qq * sc < sc" using assms(3) by (simp add: algebra_simps)
  ultimately show ?thesis by (rule int_div_pos_eq)
qed

lemma significand_quotient:
  fixes a b sc sig :: int
  assumes b: "0 < b" and sc: "0 < sc" and a: "0 \<le> a"
    and lo: "2 * (a * sc) \<le> 2 * (b * sig) + b"
    and hi: "2 * (b * sig) \<le> 2 * (a * sc) + b"
    and small: "b < 2 * sc"
  shows "sig div sc = a div b"
proof -
  define qq where "qq = a div b"
  define rr where "rr = a mod b"
  have eq: "a = b * qq + rr" by (simp add: qq_def rr_def)
  have rr: "0 \<le> rr" "rr < b" using b by (simp_all add: rr_def)
  have asc: "a * sc = b * (qq * sc) + rr * sc" by (simp add: eq algebra_simps)
  have rsc: "0 \<le> rr * sc" "rr * sc \<le> (b - 1) * sc"
    using rr sc by (simp_all add: mult_right_mono)
  have bsc: "(b - 1) * sc = b * sc - sc" by (simp add: algebra_simps)
  have low: "qq * sc \<le> sig"
  proof (rule ccontr)
    assume "\<not> qq * sc \<le> sig"
    then have "sig + 1 \<le> qq * sc" by simp
    with b have "b * (sig + 1) \<le> b * (qq * sc)" by (simp add: mult_left_mono)
    then have "b * sig + b \<le> b * (qq * sc)" by (simp add: algebra_simps)
    with lo asc rsc b show False by linarith
  qed
  have high: "sig < (qq + 1) * sc"
  proof (rule ccontr)
    assume "\<not> sig < (qq + 1) * sc"
    then have "(qq + 1) * sc \<le> sig" by simp
    with b have "b * ((qq + 1) * sc) \<le> b * sig" by (simp add: mult_left_mono)
    then have "b * (qq * sc) + b * sc \<le> b * sig" by (simp add: algebra_simps)
    with hi asc rsc bsc small show False by linarith
  qed
  from sc low high have "sig div sc = qq" by (rule div_from_bounds)
  then show ?thesis by (simp add: qq_def)
qed

lemma significand_below_one:
  fixes a b sc sig :: int
  assumes b: "0 < b" and a: "0 \<le> a" "a < b" "a < 2 ^ 53" and sc: "2 ^ 53 \<le> sc"
    and lo: "2 * (a * sc) \<le> 2 * (b * sig) + b"
    and hi: "2 * (b * sig) \<le> 2 * (a * sc) + b"
  shows "sig div sc = 0"
proof -
  have scpos: "0 < sc" using sc by (rule less_le_trans [rotated]) simp
  have nonneg: "0 \<le> sig"
  proof (rule ccontr)
    assume "\<not> 0 \<le> sig"
    then have "sig \<le> - 1" by simp
    with b have "b * sig \<le> b * (- 1)" by (rule_tac mult_left_mono) simp_all
    moreover have "0 \<le> a * sc" using a(1) scpos by simp
    ultimately show False using lo b by linarith
  qed
  have below: "sig < sc"
  proof (rule ccontr)
    assume "\<not> sig < sc"
    then have ge: "sc \<le> sig" by simp
    with b have bs: "b * sc \<le> b * sig" by (simp add: mult_left_mono)
    have "a * sc \<le> (b - 1) * sc" using a(2) scpos by (simp add: mult_right_mono)
    then have "a * sc \<le> b * sc - sc" by (simp add: algebra_simps)
    with bs hi have big: "2 * sc \<le> b" by linarith
    with a(1) have "a * (2 * sc) \<le> a * b" by (rule_tac mult_left_mono) simp_all
    then have "2 * (a * sc) \<le> b * a" by (simp add: algebra_simps)
    with hi have "b * (2 * sig) \<le> b * (a + 1)" by (simp add: algebra_simps)
    with b have "2 * sig \<le> a + 1" by simp
    moreover have "(0::int) < 2 ^ 53" by simp
    ultimately show False using a(3) sc ge by linarith
  qed
  from scpos nonneg below show ?thesis by simp
qed

lemma int_truediv_exact:
  assumes "0 \<le> a" "a < 2 ^ 53" "0 < b"
  shows "int_truediv a b = Inr (a div b)"
proof (cases "a = 0")
  case True
  with assms show ?thesis by (simp add: int_truediv_def)
next
  case False
  with assms have apos: "0 < a" by simp
  define ee where "ee = float_exponent a b"
  define sh where "sh = max ee (- 1022) - 52"
  define sig where "sig = float_significand a b sh"
  have unfold: "int_truediv a b =
      (if 0 \<le> sh \<and> 2 ^ 1024 \<le> sig * 2 ^ nat sh then Inl OverflowError
       else Inr (if 0 \<le> sh then sig * 2 ^ nat sh else sig div 2 ^ nat (- sh)))"
    using apos assms(3)
    by (simp add: int_truediv_def Let_def ee_def sh_def sig_def)
  show ?thesis
  proof (cases "b \<le> a")
    case True
    with apos assms(3) have ee0: "0 \<le> ee"
      unfolding ee_def by (intro float_exponent_nonneg)
    with apos assms(3) have lower: "b * 2 ^ nat ee \<le> a"
      unfolding ee_def by (intro float_exponent_lower)
    have "(2::int) ^ nat ee \<le> b * 2 ^ nat ee"
      using assms(3) by (simp add: mult_le_cancel_right1)
    with lower assms(2) have "(2::int) ^ nat ee < 2 ^ 53" by linarith
    with one_less_numeral_iff [THEN iffD2] have "nat ee < 53"
      by (rule power_less_imp_less_exp [where a = "2::int"]) simp
    with ee0 have ee52: "ee \<le> 52" by linarith
    show ?thesis
    proof (cases "ee = 52")
      case True
      then have sh0: "sh = 0" by (simp add: sh_def)
      from True lower assms(2) have "b * 2 ^ 52 < 2 * 2 ^ 52" by simp
      then have "b < 2" by simp
      with assms(3) have b1: "b = 1" by simp
      have "sig = a"
        by (simp add: sig_def sh0 float_significand_def b1 round_half_even_def)
      with assms(2) show ?thesis
        unfolding unfold by (simp add: sh0 b1)
    next
      case False
      with ee52 have shneg: "sh < 0" and shval: "nat (- sh) = 52 - nat ee"
        using ee0 by (simp_all add: sh_def)
      define sc :: int where "sc = 2 ^ nat (- sh)"
      have scpos: "0 < sc" by (simp add: sc_def)
      have sigdef: "sig = round_half_even (a * sc) b"
        using shneg by (simp add: sig_def float_significand_def sc_def)
      have "52 - nat ee + nat ee = 52" using ee52 ee0 by simp
      then have "sc * 2 ^ nat ee = (2::int) ^ 52"
        by (simp add: sc_def shval power_add [symmetric])
      then have "(2 * sc) * 2 ^ nat ee = (2::int) ^ 53"
        by (simp only: mult.assoc) simp
      with lower assms(2) have "b * 2 ^ nat ee < (2 * sc) * 2 ^ nat ee" by linarith
      then have small: "b < 2 * sc" by (simp only: mult_less_cancel_right_pos zero_less_power zero_less_numeral)
      have "sig div sc = a div b"
        using assms(3) scpos assms(1)
          round_half_even_bounds [OF assms(3), of "a * sc", folded sigdef] small
        by (rule significand_quotient)
      with shneg show ?thesis
        unfolding unfold by (simp add: sc_def)
    qed
  next
    case False
    then have lt: "a < b" by simp
    have eeneg: "ee < 0"
    proof (rule ccontr)
      assume "\<not> ee < 0"
      then have "0 \<le> ee" by simp
      with apos assms(3) have "b * 2 ^ nat ee \<le> a"
        unfolding ee_def by (intro float_exponent_lower)
      moreover have "b * 1 \<le> b * 2 ^ nat ee"
        using assms(3) by (intro mult_left_mono) simp_all
      ultimately show False using lt by simp
    qed
    then have "sh \<le> - 53" by (simp add: sh_def max_def)
    then have shneg: "sh < 0" and shle: "53 \<le> nat (- sh)"
      by linarith+
    define sc :: int where "sc = 2 ^ nat (- sh)"
    have scbig: "2 ^ 53 \<le> sc"
      unfolding sc_def using shle by (intro power_increasing) simp_all
    have sigdef: "sig = round_half_even (a * sc) b"
      using shneg by (simp add: sig_def float_significand_def sc_def)
    have "sig div sc = 0"
      using assms(3) assms(1) lt assms(2) scbig
        round_half_even_bounds [OF assms(3), of "a * sc", folded sigdef]
      by (rule significand_below_one)
    with shneg lt assms(1) show ?thesis
      unfolding unfold by (simp add: sc_def)
  qed
qed

subsection \<open>The matmul classifier\<close>

text \<open>
  Two rank-2 operands of shapes \<open>(vm, vk)\<close> and \<open>(vk', vn)\<close> give the description with
  \<open>m = vm\<close>, \<open>n = vn\<close>, \<open>k = vk\<close> and no extra dimensions.
\<close>

lemma matmul_rank2:
  "generate_matmul_func [vm, vk] [vk', vn] output nm input1_name input2_name =
     Inr \<lparr>LayerDescription.name = nm,
          MatmulFuncDescription.m = vm, MatmulFuncDescription.n = vn, MatmulFuncDescription.k = vk,
          MatmulFuncDescription.ifmap1_name = input1_name,
          MatmulFuncDescription.ifmap2_name = input2_name,
          MatmulFuncDescription.ofmap_name = nm @ ''_out'',
          extra_dims = Some []\<rparr>"
  by (simp add: generate_matmul_func_def index_def)

text \<open>
  Claim C1. The classifier is to take \<open>m\<close>, \<open>n\<close> and \<open>k\<close> from the trailing two axes of
  the operands, so that shapes \<open>(2,4,8)\<close> and \<open>(2,8,16)\<close> give \<open>m = 4\<close>, \<open>n = 16\<close>, \<open>k = 8\<close>
  and the extra dimension 2. The batched branch reads \<open>shape[0]\<close> and \<open>shape[1]\<close> as the
  rank-2 branch does: on these shapes it returns \<open>m = 2\<close>, \<open>n = 8\<close>, \<open>k = 4\<close>, the batch
  extent and the row counts, with the extra dimension 2.
\<close>

theorem matmul_rank3_evaluated:
  "generate_matmul_func [2, 4, 8] [2, 8, 16] output nm input1_name input2_name =
     Inr \<lparr>LayerDescription.name = nm,
          MatmulFuncDescription.m = 2, MatmulFuncDescription.n = 8, MatmulFuncDescription.k = 4,
          MatmulFuncDescription.ifmap1_name = input1_name,
          MatmulFuncDescription.ifmap2_name = input2_name,
          MatmulFuncDescription.ofmap_name = nm @ ''_out'',
          extra_dims = Some [2]\<rparr>"
  by (simp add: generate_matmul_func_def upto_minus2_def index_def)

text \<open>
  Claim C8. \<open>generate_matmul_func\<close> returns a description when both operands have rank 2,
  or when the first has rank above 2 and the leading dimensions (all but the last two)
  of both operands are equal; for every other pair of shapes it raises
  \<open>NotImplementedError\<close>, as it does for shapes \<open>(2,4,8)\<close> and \<open>(3,8,16)\<close>.
\<close>

theorem matmul_unsupported_shapes:
  "if (length input1 = 2 \<and> length input2 = 2)
      \<or> (2 < length input1 \<and> upto_minus2 input1 = upto_minus2 input2)
   then \<exists>d. generate_matmul_func input1 input2 output nm input1_name input2_name = Inr d
   else generate_matmul_func input1 input2 output nm input1_name input2_name = Inl NotImplementedError"
proof (cases "length input1 = 2 \<and> length input2 = 2")
  case True
  then have "index input1 0 = Inr (input1 ! 0)" "index input1 1 = Inr (input1 ! 1)"
    "index input2 1 = Inr (input2 ! 1)"
    by (simp_all add: index_def)
  with True show ?thesis
    by (simp add: generate_matmul_func_def)
next
  case rank2: False
  show ?thesis
  proof (cases "2 < length input1 \<and> upto_minus2 input1 = upto_minus2 input2")
    case True
    then have "length input1 - 2 = length input2 - 2"
      using length_upto_minus2 by metis
    with True have "2 < length input2" by linarith
    with True have "index input1 0 = Inr (input1 ! 0)" "index input1 1 = Inr (input1 ! 1)"
      "index input2 1 = Inr (input2 ! 1)"
      by (auto simp: index_def)
    with True rank2 show ?thesis
      by (simp add: generate_matmul_func_def)
  next
    case False
    with rank2 show ?thesis
      by (auto simp: generate_matmul_func_def)
  qed
qed

theorem matmul_unsupported_shapes_witness:
  "generate_matmul_func [2, 4, 8] [3, 8, 16] [2, 4, 16] ''mm'' ''a'' ''b'' = Inl NotImplementedError"
  using matmul_unsupported_shapes [of "[2, 4, 8]" "[3, 8, 16]" "[2, 4, 16]" "''mm''" "''a''" "''b''"]
  by (simp add: upto_minus2_def)

subsection \<open>Adaptive average pooling\<close>



subsection \<open>Convolution\<close>

text \<open>
  With a non-zero group count, positive strides and numerators of the extents in
  \<open>[0, 2^53)\<close>, \<open>to_yaml()\<close> returns this document: the coefficients \<open>Cgroup\<close> and \<open>Mgroup\<close>
  are the floor quotients of the channel counts by the groups.
\<close>

lemma conv_to_yaml_document:
  assumes "ConvLayerDescription.g d \<noteq> 0"
    and "0 < ConvLayerDescription.w_stride d" and "0 < ConvLayerDescription.h_stride d"
    and "0 \<le> ConvLayerDescription.w d - ConvLayerDescription.s d + 2 * ConvLayerDescription.w_pad d"
    and "ConvLayerDescription.w d - ConvLayerDescription.s d + 2 * ConvLayerDescription.w_pad d < 2 ^ 53"
    and "0 \<le> ConvLayerDescription.h d - ConvLayerDescription.r d + 2 * ConvLayerDescription.h_pad d"
    and "ConvLayerDescription.h d - ConvLayerDescription.r d + 2 * ConvLayerDescription.h_pad d < 2 ^ 53"
  shows "conv_to_yaml d =
    Inr (YDict [
      (''shape'', conv_shape (LayerDescription.name d)
                    (ConvLayerDescription.c d div ConvLayerDescription.g d)
                    (ConvLayerDescription.m d div ConvLayerDescription.g d)
                    (ConvLayerDescription.h_stride d) (ConvLayerDescription.w_stride d)
                    (strided_projection ''C'' ''Cgroup'') (direct_projection ''M'' ''Mgroup'')),
      (''instance'', conv_instance (ConvLayerDescription.g d)
                       (ConvLayerDescription.c d div ConvLayerDescription.g d)
                       (ConvLayerDescription.m d div ConvLayerDescription.g d)
                       (ConvLayerDescription.n d)
                       (ConvLayerDescription.r d) (ConvLayerDescription.s d)
                       ((ConvLayerDescription.h d - ConvLayerDescription.r d
                           + 2 * ConvLayerDescription.h_pad d) div ConvLayerDescription.h_stride d + 1)
                       ((ConvLayerDescription.w d - ConvLayerDescription.s d
                           + 2 * ConvLayerDescription.w_pad d) div ConvLayerDescription.w_stride d + 1))])"
  using assms
  by (simp add: conv_to_yaml_def conv_p_def conv_q_def floordiv_def int_truediv_exact)

text \<open>
  Claim C3. For every \<open>ConvLayerDescription\<close>, \<open>to_fused_yaml()\<close> and \<open>to_yaml()\<close> have the
  same outcome: the same document, with the same \<open>shape\<close> region (name, dimensions,
  coefficients, data-spaces with projections and read-write flags) and the same
  \<open>instance\<close> region, or the same exception.
\<close>

theorem conv_fused_yaml_is_yaml: "conv_to_fused_yaml d = conv_to_yaml d"
  by (simp add: conv_to_fused_yaml_def conv_to_yaml_def)

text \<open>
  Claim C4. The convolution with \<open>n = 1\<close>, \<open>c = 3\<close>, \<open>m = 8\<close>, \<open>h = w = 32\<close>, \<open>r = s = 3\<close>,
  strides 1, paddings 1 and \<open>g = 1\<close> has \<open>p = q = 32\<close>, and the \<open>instance\<close> region of its
  \<open>to_yaml()\<close> is \<open>{G: 1, C: 3, M: 8, N: 1, R: 3, S: 3, P: 32, Q: 32}\<close>, whatever its names.
\<close>

theorem conv_scenario:
  "conv_p \<lparr>LayerDescription.name = nm, ConvLayerDescription.g = 1, ConvLayerDescription.m = 8,
       ConvLayerDescription.w = 32, ConvLayerDescription.h = 32, ConvLayerDescription.c = 3,
       ConvLayerDescription.n = 1, ConvLayerDescription.s = 3, ConvLayerDescription.r = 3,
       ConvLayerDescription.w_pad = 1, ConvLayerDescription.h_pad = 1,
       ConvLayerDescription.w_stride = 1, ConvLayerDescription.h_stride = 1,
       ConvLayerDescription.ifmap_name = ifmap_nm, filter_name = filter_nm,
       ConvLayerDescription.ofmap_name = ofmap_nm\<rparr> = Inr 32
   \<and> conv_q \<lparr>LayerDescription.name = nm, ConvLayerDescription.g = 1, ConvLayerDescription.m = 8,
       ConvLayerDescription.w = 32, ConvLayerDescription.h = 32, ConvLayerDescription.c = 3,
       ConvLayerDescription.n = 1, ConvLayerDescription.s = 3, ConvLayerDescription.r = 3,
       ConvLayerDescription.w_pad = 1, ConvLayerDescription.h_pad = 1,
       ConvLayerDescription.w_stride = 1, ConvLayerDescription.h_stride = 1,
       ConvLayerDescription.ifmap_name = ifmap_nm, filter_name = filter_nm,
       ConvLayerDescription.ofmap_name = ofmap_nm\<rparr> = Inr 32
   \<and> bindE (conv_to_yaml \<lparr>LayerDescription.name = nm, ConvLayerDescription.g = 1,
       ConvLayerDescription.m = 8,
       ConvLayerDescription.w = 32, ConvLayerDescription.h = 32, ConvLayerDescription.c = 3,
       ConvLayerDescription.n = 1, ConvLayerDescription.s = 3, ConvLayerDescription.r = 3,
       ConvLayerDescription.w_pad = 1, ConvLayerDescription.h_pad = 1,
       ConvLayerDescription.w_stride = 1, ConvLayerDescription.h_stride = 1,
       ConvLayerDescription.ifmap_name = ifmap_nm, filter_name = filter_nm,
       ConvLayerDescription.ofmap_name = ofmap_nm\<rparr>) (\<lambda>config. getitem config ''instance'')
     = Inr (YDict [(''G'', YInt 1), (''C'', YInt 3), (''M'', YInt 8), (''N'', YInt 1),
                   (''R'', YInt 3), (''S'', YInt 3), (''P'', YInt 32), (''Q'', YInt 32)])"
  by code_simp

text \<open>
  Claim C5, amended. For every \<open>ConvLayerDescription\<close> with positive strides and with
  \<open>0 \<le> w - s + 2*w_pad < 2^53\<close> and \<open>0 \<le> h - r + 2*h_pad < 2^53\<close>, the derived extents are
  \<open>q = floor((w - s + 2*w_pad) / w_stride) + 1\<close> and
  \<open>p = floor((h - r + 2*h_pad) / h_stride) + 1\<close>; with stride 1 and no padding,
  \<open>q = w - s + 1\<close> and \<open>p = h - r + 1\<close>.
\<close>

theorem conv_output_extents:
  assumes "0 < ConvLayerDescription.w_stride d" and "0 < ConvLayerDescription.h_stride d"
    and "0 \<le> ConvLayerDescription.w d - ConvLayerDescription.s d + 2 * ConvLayerDescription.w_pad d"
    and "ConvLayerDescription.w d - ConvLayerDescription.s d + 2 * ConvLayerDescription.w_pad d < 2 ^ 53"
    and "0 \<le> ConvLayerDescription.h d - ConvLayerDescription.r d + 2 * ConvLayerDescription.h_pad d"
    and "ConvLayerDescription.h d - ConvLayerDescription.r d + 2 * ConvLayerDescription.h_pad d < 2 ^ 53"
  shows "conv_q d = Inr ((ConvLayerDescription.w d - ConvLayerDescription.s d
                            + 2 * ConvLayerDescription.w_pad d)
                          div ConvLayerDescription.w_stride d + 1)
       \<and> conv_p d = Inr ((ConvLayerDescription.h d - ConvLayerDescription.r d
                            + 2 * ConvLayerDescription.h_pad d)
                          div ConvLayerDescription.h_stride d + 1)
       \<and> (ConvLayerDescription.w_stride d = 1 \<and> ConvLayerDescription.w_pad d = 0
            \<longrightarrow> conv_q d = Inr (ConvLayerDescription.w d - ConvLayerDescription.s d + 1))
       \<and> (ConvLayerDescription.h_stride d = 1 \<and> ConvLayerDescription.h_pad d = 0
            \<longrightarrow> conv_p d = Inr (ConvLayerDescription.h d - ConvLayerDescription.r d + 1))"
proof -
  from assms(3,4,1) have q: "conv_q d = Inr ((ConvLayerDescription.w d - ConvLayerDescription.s d
                            + 2 * ConvLayerDescription.w_pad d)
                          div ConvLayerDescription.w_stride d + 1)"
    by (simp add: conv_q_def int_truediv_exact)
  from assms(5,6,2) have p: "conv_p d = Inr ((ConvLayerDescription.h d - ConvLayerDescription.r d
                            + 2 * ConvLayerDescription.h_pad d)
                          div ConvLayerDescription.h_stride d + 1)"
    by (simp add: conv_p_def int_truediv_exact)
  from q p show ?thesis by simp
qed

theorem conv_output_extents_witness:
  "conv_q \<lparr>LayerDescription.name = ''conv1'', ConvLayerDescription.g = 1, ConvLayerDescription.m = 64,
       ConvLayerDescription.w = 224, ConvLayerDescription.h = 224, ConvLayerDescription.c = 3,
       ConvLayerDescription.n = 1, ConvLayerDescription.s = 7, ConvLayerDescription.r = 7,
       ConvLayerDescription.w_pad = 3, ConvLayerDescription.h_pad = 3,
       ConvLayerDescription.w_stride = 2, ConvLayerDescription.h_stride = 2,
       ConvLayerDescription.ifmap_name = ''x'', filter_name = ''conv1_filter'',
       ConvLayerDescription.ofmap_name = ''conv1_out''\<rparr> = Inr 112 \<and> conv_p \<lparr>LayerDescription.name = ''conv1'', ConvLayerDescription.g = 1, ConvLayerDescription.m = 64,
       ConvLayerDescription.w = 224, ConvLayerDescription.h = 224, ConvLayerDescription.c = 3,
       ConvLayerDescription.n = 1, ConvLayerDescription.s = 7, ConvLayerDescription.r = 7,
       ConvLayerDescription.w_pad = 3, ConvLayerDescription.h_pad = 3,
       ConvLayerDescription.w_stride = 2, ConvLayerDescription.h_stride = 2,
       ConvLayerDescription.ifmap_name = ''x'', filter_name = ''conv1_filter'',
       ConvLayerDescription.ofmap_name = ''conv1_out''\<rparr> = Inr 112"
  using conv_output_extents [of "\<lparr>LayerDescription.name = ''conv1'', ConvLayerDescription.g = 1, ConvLayerDescription.m = 64,
       ConvLayerDescription.w = 224, ConvLayerDescription.h = 224, ConvLayerDescription.c = 3,
       ConvLayerDescription.n = 1, ConvLayerDescription.s = 7, ConvLayerDescription.r = 7,
       ConvLayerDescription.w_pad = 3, ConvLayerDescription.h_pad = 3,
       ConvLayerDescription.w_stride = 2, ConvLayerDescription.h_stride = 2,
       ConvLayerDescription.ifmap_name = ''x'', filter_name = ''conv1_filter'',
       ConvLayerDescription.ofmap_name = ''conv1_out''\<rparr>"]
  by simp

text \<open>
  Claim C5 as stated fails where the float quotient rounds: with \<open>w = 2^53 + 2\<close>,
  \<open>s = 1\<close>, stride 1 and no padding, \<open>q\<close> is \<open>2^53 + 1\<close>, and \<open>w - s + 1\<close> is \<open>2^53 + 2\<close>.
\<close>

theorem conv_output_extents_counterexample:
  "conv_q \<lparr>LayerDescription.name = ''conv1'', ConvLayerDescription.g = 1, ConvLayerDescription.m = 1,
       ConvLayerDescription.w = 9007199254740994, ConvLayerDescription.h = 1,
       ConvLayerDescription.c = 1,
       ConvLayerDescription.n = 1, ConvLayerDescription.s = 1, ConvLayerDescription.r = 1,
       ConvLayerDescription.w_pad = 0, ConvLayerDescription.h_pad = 0,
       ConvLayerDescription.w_stride = 1, ConvLayerDescription.h_stride = 1,
       ConvLayerDescription.ifmap_name = ''x'', filter_name = ''conv1_filter'',
       ConvLayerDescription.ofmap_name = ''conv1_out''\<rparr> = Inr 9007199254740993
   \<and> (ConvLayerDescription.w \<lparr>LayerDescription.name = ''conv1'', ConvLayerDescription.g = 1, ConvLayerDescription.m = 1,
       ConvLayerDescription.w = 9007199254740994, ConvLayerDescription.h = 1,
       ConvLayerDescription.c = 1,
       ConvLayerDescription.n = 1, ConvLayerDescription.s = 1, ConvLayerDescription.r = 1,
       ConvLayerDescription.w_pad = 0, ConvLayerDescription.h_pad = 0,
       ConvLayerDescription.w_stride = 1, ConvLayerDescription.h_stride = 1,
       ConvLayerDescription.ifmap_name = ''x'', filter_name = ''conv1_filter'',
       ConvLayerDescription.ofmap_name = ''conv1_out''\<rparr> - ConvLayerDescription.s \<lparr>LayerDescription.name = ''conv1'', ConvLayerDescription.g = 1, ConvLayerDescription.m = 1,
       ConvLayerDescription.w = 9007199254740994, ConvLayerDescription.h = 1,
       ConvLayerDescription.c = 1,
       ConvLayerDescription.n = 1, ConvLayerDescription.s = 1, ConvLayerDescription.r = 1,
       ConvLayerDescription.w_pad = 0, ConvLayerDescription.h_pad = 0,
       ConvLayerDescription.w_stride = 1, ConvLayerDescription.h_stride = 1,
       ConvLayerDescription.ifmap_name = ''x'', filter_name = ''conv1_filter'',
       ConvLayerDescription.ofmap_name = ''conv1_out''\<rparr> + 2 * ConvLayerDescription.w_pad \<lparr>LayerDescription.name = ''conv1'', ConvLayerDescription.g = 1, ConvLayerDescription.m = 1,
       ConvLayerDescription.w = 9007199254740994, ConvLayerDescription.h = 1,
       ConvLayerDescription.c = 1,
       ConvLayerDescription.n = 1, ConvLayerDescription.s = 1, ConvLayerDescription.r = 1,
       ConvLayerDescription.w_pad = 0, ConvLayerDescription.h_pad = 0,
       ConvLayerDescription.w_stride = 1, ConvLayerDescription.h_stride = 1,
       ConvLayerDescription.ifmap_name = ''x'', filter_name = ''conv1_filter'',
       ConvLayerDescription.ofmap_name = ''conv1_out''\<rparr>)
        div ConvLayerDescription.w_stride \<lparr>LayerDescription.name = ''conv1'', ConvLayerDescription.g = 1, ConvLayerDescription.m = 1,
       ConvLayerDescription.w = 9007199254740994, ConvLayerDescription.h = 1,
       ConvLayerDescription.c = 1,
       ConvLayerDescription.n = 1, ConvLayerDescription.s = 1, ConvLayerDescription.r = 1,
       ConvLayerDescription.w_pad = 0, ConvLayerDescription.h_pad = 0,
       ConvLayerDescription.w_stride = 1, ConvLayerDescription.h_stride = 1,
       ConvLayerDescription.ifmap_name = ''x'', filter_name = ''conv1_filter'',
       ConvLayerDescription.ofmap_name = ''conv1_out''\<rparr> + 1 = 9007199254740994
   \<and> 0 < ConvLayerDescription.w_stride \<lparr>LayerDescription.name = ''conv1'', ConvLayerDescription.g = 1, ConvLayerDescription.m = 1,
       ConvLayerDescription.w = 9007199254740994, ConvLayerDescription.h = 1,
       ConvLayerDescription.c = 1,
       ConvLayerDescription.n = 1, ConvLayerDescription.s = 1, ConvLayerDescription.r = 1,
       ConvLayerDescription.w_pad = 0, ConvLayerDescription.h_pad = 0,
       ConvLayerDescription.w_stride = 1, ConvLayerDescription.h_stride = 1,
       ConvLayerDescription.ifmap_name = ''x'', filter_name = ''conv1_filter'',
       ConvLayerDescription.ofmap_name = ''conv1_out''\<rparr>
   \<and> 0 \<le> ConvLayerDescription.w \<lparr>LayerDescription.name = ''conv1'', ConvLayerDescription.g = 1, ConvLayerDescription.m = 1,
       ConvLayerDescription.w = 9007199254740994, ConvLayerDescription.h = 1,
       ConvLayerDescription.c = 1,
       ConvLayerDescription.n = 1, ConvLayerDescription.s = 1, ConvLayerDescription.r = 1,
       ConvLayerDescription.w_pad = 0, ConvLayerDescription.h_pad = 0,
       ConvLayerDescription.w_stride = 1, ConvLayerDescription.h_stride = 1,
       ConvLayerDescription.ifmap_name = ''x'', filter_name = ''conv1_filter'',
       ConvLayerDescription.ofmap_name = ''conv1_out''\<rparr> - ConvLayerDescription.s \<lparr>LayerDescription.name = ''conv1'', ConvLayerDescription.g = 1, ConvLayerDescription.m = 1,
       ConvLayerDescription.w = 9007199254740994, ConvLayerDescription.h = 1,
       ConvLayerDescription.c = 1,
       ConvLayerDescription.n = 1, ConvLayerDescription.s = 1, ConvLayerDescription.r = 1,
       ConvLayerDescription.w_pad = 0, ConvLayerDescription.h_pad = 0,
       ConvLayerDescription.w_stride = 1, ConvLayerDescription.h_stride = 1,
       ConvLayerDescription.ifmap_name = ''x'', filter_name = ''conv1_filter'',
       ConvLayerDescription.ofmap_name = ''conv1_out''\<rparr> + 2 * ConvLayerDescription.w_pad \<lparr>LayerDescription.name = ''conv1'', ConvLayerDescription.g = 1, ConvLayerDescription.m = 1,
       ConvLayerDescription.w = 9007199254740994, ConvLayerDescription.h = 1,
       ConvLayerDescription.c = 1,
       ConvLayerDescription.n = 1, ConvLayerDescription.s = 1, ConvLayerDescription.r = 1,
       ConvLayerDescription.w_pad = 0, ConvLayerDescription.h_pad = 0,
       ConvLayerDescription.w_stride = 1, ConvLayerDescription.h_stride = 1,
       ConvLayerDescription.ifmap_name = ''x'', filter_name = ''conv1_filter'',
       ConvLayerDescription.ofmap_name = ''conv1_out''\<rparr>"
  by code_simp

subsection \<open>Elementwise binary operations\<close>

lemma dict_set_fresh: "key \<notin> fst ` set kvs \<Longrightarrow> dict_set kvs key v = kvs @ [(key, v)]"
  by (induction kvs) auto

lemma set_bounds_distinct:
  "distinct (map fst acc @ dims) \<Longrightarrow>
   set_bounds acc dims shape = acc @ map (\<lambda>(dim, sz). (dim, YInt sz)) (zip dims shape)"
proof (induction dims arbitrary: acc shape)
  case Nil
  then show ?case by (simp add: set_bounds_def)
next
  case (Cons dim dims)
  show ?case
  proof (cases shape)
    case Nil
    then show ?thesis by (simp add: set_bounds_def)
  next
    case (Cons sz rest)
    from Cons.prems have fresh: "dim \<notin> fst ` set acc" by auto
    from Cons.prems have "distinct (map fst (acc @ [(dim, YInt sz)]) @ dims)" by auto
    from Cons.IH [OF this, of rest] fresh Cons show ?thesis
      by (simp add: set_bounds_def dict_set_fresh)
  qed
qed

lemma distinct_uppercase_dims: "distinct (uppercase_dims cnt)"
proof -
  have "distinct ascii_uppercase" by (simp add: ascii_uppercase_def)
  then have "distinct (take cnt ascii_uppercase)" by (rule distinct_take)
  then show ?thesis by (simp add: uppercase_dims_def distinct_map inj_on_def)
qed

lemma length_uppercase_dims: "length (uppercase_dims cnt) = min cnt 26"
  by (simp add: uppercase_dims_def ascii_uppercase_def min_def)

lemma binary_pad_fields:
  "ifmap1_shape (binary_pad d) = pad_shape (ifmap1_shape d) (BinaryElementwiseFuncDescription.ofmap_shape d)"
  "ifmap2_shape (binary_pad d) = pad_shape (ifmap2_shape d) (BinaryElementwiseFuncDescription.ofmap_shape d)"
  "BinaryElementwiseFuncDescription.ofmap_shape (binary_pad d) = BinaryElementwiseFuncDescription.ofmap_shape d"
  "LayerDescription.name (binary_pad d) = LayerDescription.name d"
  by (simp_all add: binary_pad_def Let_def)

text \<open>
  \<open>to_yaml()\<close> returns a document exactly when neither input has a higher rank than the
  output (the rank checks pass after padding) and the output shape is not empty.
\<close>

lemma binary_to_yaml_returns:
  "(\<exists>config. snd (binary_to_yaml d) = Inr config) \<longleftrightarrow>
     length (ifmap1_shape d) \<le> length (BinaryElementwiseFuncDescription.ofmap_shape d)
     \<and> length (ifmap2_shape d) \<le> length (BinaryElementwiseFuncDescription.ofmap_shape d)
     \<and> BinaryElementwiseFuncDescription.ofmap_shape d \<noteq> []"
  by (auto simp: binary_to_yaml_def Let_def binary_pad_fields pad_shape_def product_def
      split: if_splits sum.splits list.splits)

text \<open>
  Claim C10. When \<open>to_yaml()\<close> of a \<open>BinaryElementwiseFuncDescription\<close> returns a
  document, its \<open>instance\<close> bounds pair the dimension names, in order, with the extents
  of the first input shape left-padded with ones to the rank of the output (the two
  have the same length). The output shape gives its rank and nothing else: a
  dimension where the first input has extent 1 and the output a larger one gets the
  bound 1. The name, in the description and in the document, gets the suffix
  \<open>_exhaustive\<close> exactly when the product of that padded first input shape is 1.
\<close>

theorem binary_bounds_from_first_input:
  assumes "binary_to_yaml d = (d', Inr config)"
  shows "getitem config ''instance'' =
           Inr (YDict (map (\<lambda>(dim, sz). (dim, YInt sz))
                  (zip (uppercase_dims (length (BinaryElementwiseFuncDescription.ofmap_shape d)))
                       (pad_shape (ifmap1_shape d) (BinaryElementwiseFuncDescription.ofmap_shape d)))))
       \<and> LayerDescription.name d' =
           (if product (pad_shape (ifmap1_shape d) (BinaryElementwiseFuncDescription.ofmap_shape d)) = Inr 1
            then LayerDescription.name d @ ''_exhaustive'' else LayerDescription.name d)
       \<and> get_in config [''shape'', ''name''] = Inr (YStr (LayerDescription.name d'))
       \<and> length (pad_shape (ifmap1_shape d) (BinaryElementwiseFuncDescription.ofmap_shape d))
           = length (BinaryElementwiseFuncDescription.ofmap_shape d)"
  using assms set_bounds_distinct [of "[]" "uppercase_dims (length (BinaryElementwiseFuncDescription.ofmap_shape d))"]
    distinct_uppercase_dims
  by (auto simp: binary_to_yaml_def Let_def binary_pad_fields elementwise_config_def getitem_def
      split: if_splits sum.splits)

theorem binary_bounds_from_first_input_witness:
  "binary_to_yaml \<lparr>LayerDescription.name = ''add'', ifmap1_shape = [1, 3], ifmap2_shape = [2, 3],
       BinaryElementwiseFuncDescription.ofmap_shape = [2, 3], ifmap1_name = ''x'',
       ifmap2_name = ''y'', BinaryElementwiseFuncDescription.ofmap_name = ''z''\<rparr>
     = (\<lparr>LayerDescription.name = ''add'', ifmap1_shape = [1, 3], ifmap2_shape = [2, 3],
       BinaryElementwiseFuncDescription.ofmap_shape = [2, 3], ifmap1_name = ''x'',
       ifmap2_name = ''y'', BinaryElementwiseFuncDescription.ofmap_name = ''z''\<rparr>,
        Inr (elementwise_config ''add'' [''A'', ''B''] [(''A'', YInt 1), (''B'', YInt 3)]))
   \<and> getitem (elementwise_config ''add'' [''A'', ''B''] [(''A'', YInt 1), (''B'', YInt 3)]) ''instance''
       = Inr (YDict [(''A'', YInt 1), (''B'', YInt 3)])"
proof -
  have ev: "binary_to_yaml \<lparr>LayerDescription.name = ''add'', ifmap1_shape = [1, 3], ifmap2_shape = [2, 3],
       BinaryElementwiseFuncDescription.ofmap_shape = [2, 3], ifmap1_name = ''x'',
       ifmap2_name = ''y'', BinaryElementwiseFuncDescription.ofmap_name = ''z''\<rparr>
     = (\<lparr>LayerDescription.name = ''add'', ifmap1_shape = [1, 3], ifmap2_shape = [2, 3],
       BinaryElementwiseFuncDescription.ofmap_shape = [2, 3], ifmap1_name = ''x'',
       ifmap2_name = ''y'', BinaryElementwiseFuncDescription.ofmap_name = ''z''\<rparr>,
        Inr (elementwise_config ''add'' [''A'', ''B''] [(''A'', YInt 1), (''B'', YInt 3)]))"
    by code_simp
  from binary_bounds_from_first_input [OF ev] ev show ?thesis
    by (simp add: uppercase_dims_def ascii_uppercase_def pad_shape_def)
qed


subsection \<open>View\<close>



lemma product_empty: "product [] = Inl TypeError"
  by (simp add: product_def)




text \<open>The input projection lists one expression per input axis.\<close>

lemma length_ifmap_terms_loop: "length (ifmap_terms_loop lin xs cur) = length xs"
  by (induction xs arbitrary: cur) simp_all

lemma length_view_ifmap_terms: "length (view_ifmap_terms lin ifmap) = length ifmap"
  by (simp add: view_ifmap_terms_def length_ifmap_terms_loop)

text \<open>
  Claim C7. The expression of input axis \<open>i\<close> is to be \<open>floor(L / stride_i) mod size_i\<close>,
  with \<open>L\<close> the row-major linear index over the output dimensions. \<open>to_fused_yaml()\<close>
  pastes the sum \<open>L\<close> in front of \<open>/\<close> without parentheses. Reshaping \<open>(2,3,4)\<close> to \<open>(6,4)\<close>
  it emits these three expressions over \<open>A\<close> and \<open>B\<close>, in which the division takes the
  last term \<open>A*4\<close> alone. At \<open>A = 1\<close>, \<open>B = 2\<close> the linear index is 6 and the coordinate
  along input axis 1 is \<open>floor(6 / 4) mod 3 = 1\<close>; the emitted
  \<open>floor(B*1 + A*4/4)%3\<close> is \<open>floor(2 + 4/4) mod 3 = 0\<close>.
\<close>

theorem view_projection_evaluated:
  "view_to_fused_yaml \<lparr>LayerDescription.name = ''v'', ViewFuncDescription.ifmap_shape = [2, 3, 4],
       ViewFuncDescription.ofmap_shape = [6, 4], ViewFuncDescription.ifmap_name = ''x'',
       ViewFuncDescription.ofmap_name = ''y''\<rparr> =
     Inr (YDict [
       (''shape'', YDict [
          (''name'', YStr ''v''),
          (''dimensions'', YList [YStr ''A'', YStr ''B'']),
          (''data-spaces'', YList [
             YDict [(''name'', YStr ''x''),
                    (''projection'',
                     YStr ''[ floor(B*1 + A*4/12)%2, floor(B*1 + A*4/4)%3, floor(B*1 + A*4/1)%4 ]'')],
             YDict [(''name'', YStr ''y''),
                    (''projection'', YStr ''[ A, B ]''),
                    (''read-write'', YBool True)]])]),
       (''instance'', YStr ''0 <= A < 6 and 0 <= B < 4'')])"
  by code_simp

subsection \<open>What a translation call leaves of the description\<close>

lemma conv_transpose_frame:
  "fst (conv_transpose_to_yaml x) = x
   \<or> fst (conv_transpose_to_yaml x) = x\<lparr>LayerDescription.name := LayerDescription.name x @ ''_transpose''\<rparr>"
  by (simp add: conv_transpose_to_yaml_def Let_def split: sum.splits)

lemma conv_transpose_fused_frame:
  "fst (conv_transpose_to_fused_yaml x) = x
   \<or> fst (conv_transpose_to_fused_yaml x) = x\<lparr>LayerDescription.name := LayerDescription.name x @ ''_transpose''\<rparr>"
  by (simp add: conv_transpose_to_fused_yaml_def Let_def split: sum.splits)

lemma binary_pad_eq:
  "binary_pad x = x\<lparr>ifmap1_shape := pad_shape (ifmap1_shape x) (BinaryElementwiseFuncDescription.ofmap_shape x),
                    ifmap2_shape := pad_shape (ifmap2_shape x) (BinaryElementwiseFuncDescription.ofmap_shape x)\<rparr>"
  by (simp add: binary_pad_def Let_def)

lemma binary_frame:
  "fst (binary_to_yaml x) = binary_pad x
   \<or> fst (binary_to_yaml x) = (binary_pad x)\<lparr>LayerDescription.name := LayerDescription.name x @ ''_exhaustive''\<rparr>"
  by (simp add: binary_to_yaml_def Let_def binary_pad_fields split: sum.splits)

lemma binary_fused_frame: "fst (binary_to_fused_yaml x) = binary_pad x"
  by (simp add: binary_to_fused_yaml_def Let_def)

lemma matmul_frame:
  "fst (matmul_to_yaml templates x) = x
   \<or> fst (matmul_to_yaml templates x)
       = x\<lparr>extra_dims := Some (case extra_dims x of None \<Rightarrow> [] | Some extra \<Rightarrow> extra)\<rparr>"
  by (simp add: matmul_to_yaml_def Let_def split: sum.splits option.splits)

text \<open>Once the template is loaded and named, \<open>extra_dims\<close> is a tuple, whatever follows.\<close>

lemma matmul_extra_dims_set:
  assumes "layer_to_yaml templates (Some ''matmul'') (YStr (LayerDescription.name x)) = Inr config"
  shows "extra_dims (fst (matmul_to_yaml templates x))
           = Some (case extra_dims x of None \<Rightarrow> [] | Some extra \<Rightarrow> extra)"
  using assms
  by (simp add: matmul_to_yaml_def Let_def split: option.splits)

text \<open>
  Claim C2, amended. A translation call (\<open>to_yaml\<close> or \<open>to_fused_yaml\<close>, returning or
  raising) leaves every field of the description unchanged, except that
  \<^item> a \<open>ConvTransposeLayerDescription\<close> may get the suffix \<open>_transpose\<close> on its name;
  \<^item> a \<open>BinaryElementwiseFuncDescription\<close> has \<open>ifmap1_shape\<close> and \<open>ifmap2_shape\<close>
    replaced by the shapes left-padded with ones to the rank of \<open>ofmap_shape\<close>, and may
    get the suffix \<open>_exhaustive\<close> on its name;
  \<^item> a \<open>MatmulFuncDescription\<close> may have \<open>extra_dims = None\<close> replaced by the empty tuple.
\<close>

theorem translation_frame:
  assumes "out = to_yaml templates d \<or> out = to_fused_yaml templates d"
  shows "case d of
           ConvTranspose x \<Rightarrow>
             fst out = ConvTranspose x
             \<or> fst out = ConvTranspose (x\<lparr>LayerDescription.name := LayerDescription.name x @ ''_transpose''\<rparr>)
         | BinaryElementwise x \<Rightarrow>
             fst out = BinaryElementwise
               (x\<lparr>ifmap1_shape := pad_shape (ifmap1_shape x) (BinaryElementwiseFuncDescription.ofmap_shape x),
                  ifmap2_shape := pad_shape (ifmap2_shape x) (BinaryElementwiseFuncDescription.ofmap_shape x)\<rparr>)
             \<or> fst out = BinaryElementwise
               (x\<lparr>LayerDescription.name := LayerDescription.name x @ ''_exhaustive'',
                  ifmap1_shape := pad_shape (ifmap1_shape x) (BinaryElementwiseFuncDescription.ofmap_shape x),
                  ifmap2_shape := pad_shape (ifmap2_shape x) (BinaryElementwiseFuncDescription.ofmap_shape x)\<rparr>)
         | Matmul x \<Rightarrow>
             fst out = Matmul x
             \<or> fst out = Matmul
               (x\<lparr>extra_dims := Some (case extra_dims x of None \<Rightarrow> [] | Some extra \<Rightarrow> extra)\<rparr>)
         | _ \<Rightarrow> fst out = d"
proof (cases d)
  case (ConvTranspose x)
  with assms conv_transpose_frame [of x] conv_transpose_fused_frame [of x] show ?thesis
    by (auto simp: split_def)
next
  case (BinaryElementwise x)
  with assms binary_frame [of x] binary_fused_frame [of x] show ?thesis
    by (auto simp: split_def binary_pad_eq)
next
  case (Matmul x)
  with assms matmul_frame [of templates x] show ?thesis
    by (auto simp: split_def)
qed (use assms in auto)

theorem translation_frame_witness:
  "fst (to_yaml Map.empty (BinaryElementwise \<lparr>LayerDescription.name = ''add'', ifmap1_shape = [3], ifmap2_shape = [2, 3],
       BinaryElementwiseFuncDescription.ofmap_shape = [2, 3], ifmap1_name = ''x'',
       ifmap2_name = ''y'', BinaryElementwiseFuncDescription.ofmap_name = ''z''\<rparr>)) = BinaryElementwise \<lparr>LayerDescription.name = ''add'', ifmap1_shape = [1, 3], ifmap2_shape = [2, 3],
       BinaryElementwiseFuncDescription.ofmap_shape = [2, 3], ifmap1_name = ''x'',
       ifmap2_name = ''y'', BinaryElementwiseFuncDescription.ofmap_name = ''z''\<rparr>"
  using translation_frame [of "to_yaml Map.empty (BinaryElementwise \<lparr>LayerDescription.name = ''add'', ifmap1_shape = [3], ifmap2_shape = [2, 3],
       BinaryElementwiseFuncDescription.ofmap_shape = [2, 3], ifmap1_name = ''x'',
       ifmap2_name = ''y'', BinaryElementwiseFuncDescription.ofmap_name = ''z''\<rparr>)" Map.empty "BinaryElementwise \<lparr>LayerDescription.name = ''add'', ifmap1_shape = [3], ifmap2_shape = [2, 3],
       BinaryElementwiseFuncDescription.ofmap_shape = [2, 3], ifmap1_name = ''x'',
       ifmap2_name = ''y'', BinaryElementwiseFuncDescription.ofmap_name = ''z''\<rparr>"]
  by (simp add: pad_shape_def binary_to_yaml_def binary_pad_def product_def Let_def)

text \<open>
  Claim C2 as stated says that translating a \<open>BinaryElementwiseFuncDescription\<close> leaves
  \<open>ifmap1_shape\<close> unchanged: \<open>to_yaml()\<close> turns the shape \<open>(3,)\<close> into \<open>(1, 3)\<close> when the output
  has rank 2.
\<close>

theorem translation_mutates_shape_counterexample:
  "ifmap1_shape (fst (binary_to_yaml \<lparr>LayerDescription.name = ''add'', ifmap1_shape = [3], ifmap2_shape = [2, 3],
       BinaryElementwiseFuncDescription.ofmap_shape = [2, 3], ifmap1_name = ''x'',
       ifmap2_name = ''y'', BinaryElementwiseFuncDescription.ofmap_name = ''z''\<rparr>)) = [1, 3] \<and> ifmap1_shape \<lparr>LayerDescription.name = ''add'', ifmap1_shape = [3], ifmap2_shape = [2, 3],
       BinaryElementwiseFuncDescription.ofmap_shape = [2, 3], ifmap1_name = ''x'',
       ifmap2_name = ''y'', BinaryElementwiseFuncDescription.ofmap_name = ''z''\<rparr> = [3]"
  by (simp add: binary_to_yaml_def binary_pad_def pad_shape_def Let_def product_def)


end
